theory Spec2Isabelle
  imports Main "HOL-Library.Word"
begin

unbundle bit_operations_syntax

section \<open>Stockpile archives: a shallow embedding of stockpile.c\<close>

text \<open>
  The development follows \<^verbatim>\<open>src/src/stockpile.c\<close> function by function.
  Conventions of the embedding:
  \<^item> a byte (\<^verbatim>\<open>uint8_t\<close>, \<^verbatim>\<open>char\<close>) is an \<open>8 word\<close>, a \<^verbatim>\<open>uint32_t\<close> a \<open>32 word\<close>;
    a \<^verbatim>\<open>size_t\<close> is a \<open>nat\<close> and every cast to \<^verbatim>\<open>uint32_t\<close> or \<^verbatim>\<open>uint8_t\<close> is
    written out with \<open>of_nat\<close>;
  \<^item> a pointer argument that may be \<^verbatim>\<open>NULL\<close> is an \<open>option\<close>;
  \<^item> the result of a call is an \<open>outcome\<close>: the value returned on success, or the
    error code handed to \<^verbatim>\<open>StpSetError\<close> when the call returns its failure value
    (\<^verbatim>\<open>NULL\<close>, \<^verbatim>\<open>false\<close>, \<^verbatim>\<open>-1\<close>), or \<open>Undefined\<close> when the C execution reads
    or writes outside an array or a block, goes through a \<^verbatim>\<open>NULL\<close> pointer or
    releases a block twice;
  \<^item> allocation is taken to succeed; the contents of a block returned by
    \<^verbatim>\<open>malloc\<close> are indeterminate, so where the code never assigns a field of a
    fresh struct, the model takes the block's prior contents as an argument;
  \<^item> the error callback, when one is installed, is taken to return.
\<close>

type_synonym byte = "8 word"
type_synonym u32 = "32 word"

datatype StpErrorCode =
    STP_OK
  | STP_ERROR_INVALID_ARGUMENT
  | STP_ERROR_OUT_OF_MEMORY
  | STP_ERROR_OUT_OF_RANGE
  | STP_ERROR_FILE_NOT_FOUND
  | STP_ERROR_FILE_OPEN
  | STP_ERROR_FILE_READ
  | STP_ERROR_FILE_WRITE
  | STP_ERROR_IDENTIFIER_MISMATCH
  | STP_ERROR_CRC
  | STP_ERROR_ENTRY_REDEFINITION
  | STP_ERROR_ENTRY_NOT_FOUND

datatype 'a outcome = Returned 'a | Failed StpErrorCode | Undefined

subsection \<open>C strings\<close>

text \<open>
  A C string is the run of bytes before the first zero byte. \<open>strlen\<close> and
  \<open>strcmp\<close> are read on byte lists that stand for the memory the pointer
  designates, a terminating zero being implied at the end of the list.
\<close>

definition cstr :: "byte list \<Rightarrow> byte list" where
  "cstr s = takeWhile (\<lambda>c. c \<noteq> 0) s"

definition strlen :: "byte list \<Rightarrow> nat" where
  "strlen s = length (cstr s)"

definition strcmp_eq :: "byte list \<Rightarrow> byte list \<Rightarrow> bool" where
  "strcmp_eq a b = (cstr a = cstr b)"

subsection \<open>The CRC-32 primitive of zlib and \<^verbatim>\<open>StpCrc32\<close>\<close>

text \<open>
  \<^verbatim>\<open>crc32(crc, buf, len)\<close> of zlib is the reflected CRC-32 with polynomial
  \<^verbatim>\<open>0xEDB88320\<close>: the running value is complemented on entry and on exit, and a
  \<^verbatim>\<open>NULL\<close> buffer yields the initial value 0. The buffer argument carries its
  length.
\<close>

definition crc_shift :: "u32 \<Rightarrow> u32" where
  "crc_shift c = (if bit c 0 then drop_bit 1 c XOR 0xEDB88320 else drop_bit 1 c)"

definition crc_byte :: "u32 \<Rightarrow> byte \<Rightarrow> u32" where
  "crc_byte c b = (crc_shift ^^ 8) (c XOR ucast b)"

fun crc32 :: "u32 \<Rightarrow> byte list option \<Rightarrow> u32" where
  "crc32 crc None = 0"
| "crc32 crc (Some buf) = NOT (foldl crc_byte (NOT crc) buf)"

text \<open>
  \<^verbatim>\<open>
  uint32_t StpCrc32(const void* data, size_t length) {
      uint32_t crc = crc32(0, NULL, 0);
      for (size_t i = 0; i < length; i++) {
          crc = crc32(crc, ((const uint8_t*)data) + i, 1);
      }
      return crc;
  }
  \<close>
  The loop reads \<open>data[i]\<close> for every \<open>i < length\<close>; a read past the end of
  the buffer is \<open>Undefined\<close>.
\<close>

function StpCrc32_loop :: "byte list \<Rightarrow> nat \<Rightarrow> nat \<Rightarrow> u32 \<Rightarrow> u32 outcome" where
  "StpCrc32_loop data len i crc =
     (if i < len then
        (if i < length data
         then StpCrc32_loop data len (Suc i) (crc32 crc (Some [data ! i]))
         else Undefined)
      else Returned crc)"
  by pat_completeness auto
termination
  by (relation "measure (\<lambda>(data, len, i, crc). len - i)") auto

definition StpCrc32 :: "byte list \<Rightarrow> nat \<Rightarrow> u32 outcome" where
  "StpCrc32 data len = StpCrc32_loop data len 0 (crc32 0 None)"

subsection \<open>Heap blocks\<close>

text \<open>
  The buffers that the builder allocates for pending entries live in a heap of
  blocks: an address designates at most one live block, address 0 is
  \<^verbatim>\<open>NULL\<close>. \<^verbatim>\<open>free\<close> of \<^verbatim>\<open>NULL\<close> does nothing; \<^verbatim>\<open>free\<close> of an address that
  designates no live block (a block already released) has no defined behaviour.
  A fresh block is filled with zero bytes, which stand for its indeterminate
  contents: the code overwrites the whole block before it reads it.
\<close>

type_synonym addr = nat

record heap =
  blocks :: "addr \<Rightarrow> byte list option"
  next_block :: addr

definition empty_heap :: heap where
  "empty_heap = \<lparr>blocks = (\<lambda>a. None), next_block = 1\<rparr>"

definition heap_malloc :: "nat \<Rightarrow> heap \<Rightarrow> addr \<times> heap" where
  "heap_malloc n h =
     (next_block h,
      h\<lparr>blocks := (blocks h)(next_block h := Some (replicate n 0)),
        next_block := Suc (next_block h)\<rparr>)"

definition heap_memcpy :: "addr \<Rightarrow> byte list \<Rightarrow> heap \<Rightarrow> heap" where
  "heap_memcpy a bs h =
     (case blocks h a of
        None \<Rightarrow> h
      | Some blk \<Rightarrow> h\<lparr>blocks := (blocks h)(a := Some (bs @ drop (length bs) blk))\<rparr>)"

definition heap_free :: "addr \<Rightarrow> heap \<Rightarrow> heap option" where
  "heap_free a h =
     (if a = 0 then Some h
      else (case blocks h a of
              None \<Rightarrow> None
            | Some blk \<Rightarrow> Some (h\<lparr>blocks := (blocks h)(a := None)\<rparr>)))"

subsection \<open>The builder\<close>

text \<open>
  \<^verbatim>\<open>
  typedef struct StpArchiveBuilderEntry {
      char name[255]; void* data; size_t size; uint8_t name_len;
  } StpArchiveBuilderEntry;
  struct StpArchiveBuilder {
      StpArchiveBuilderEntry* entries; uint32_t* crc_data;
      size_t count, capacity; bool enable_crc;
  };
  \<close>
  Field names carry a prefix (\<open>be_\<close>, \<open>b_\<close>) because record fields share one name
  space. The entry array is a function from indices to slots.
  \<open>b_entries_size\<close> is not a field of the struct: it is the size in bytes of
  the block that \<open>entries\<close> points to, as the allocator knows it, and 0 when
  \<open>entries\<close> is \<^verbatim>\<open>NULL\<close>. A slot is written inside the block when the block
  has room for it. The sizes of the two entry structs are those of a 64-bit target
  (8-byte pointers and \<^verbatim>\<open>size_t\<close>, 8-byte alignment): \<^verbatim>\<open>StpEntry\<close> takes
  \<open>8 + 256 + 8 = 272\<close> bytes and \<^verbatim>\<open>StpArchiveBuilderEntry\<close>
  \<open>255 + 1 + 8 + 8 + 1 + 7 = 280\<close> bytes.
\<close>

definition sizeof_StpEntry :: nat where
  "sizeof_StpEntry = 272"

definition sizeof_StpArchiveBuilderEntry :: nat where
  "sizeof_StpArchiveBuilderEntry = 280"

record StpArchiveBuilderEntry =
  be_name :: "byte list"
  be_data :: addr
  be_size :: nat
  be_name_len :: byte

record StpArchiveBuilder =
  b_entries :: "(nat \<Rightarrow> StpArchiveBuilderEntry) option"
  b_entries_size :: nat
  b_crc_data :: "u32 list option"
  b_count :: nat
  b_capacity :: nat
  b_enable_crc :: bool

definition zero_builder_entry :: StpArchiveBuilderEntry where
  "zero_builder_entry =
     \<lparr>be_name = replicate 255 0, be_data = 0, be_size = 0, be_name_len = 0\<rparr>"

text \<open>The builder after \<^verbatim>\<open>memset(builder, 0, sizeof(StpArchiveBuilder))\<close>.\<close>

definition zero_builder :: StpArchiveBuilder where
  "zero_builder =
     \<lparr>b_entries = None, b_entries_size = 0, b_crc_data = None, b_count = 0,
      b_capacity = 0, b_enable_crc = False\<rparr>"

definition StpCreateArchiveBuilder :: "nat \<Rightarrow> bool \<Rightarrow> StpArchiveBuilder" where
  "StpCreateArchiveBuilder capacity generate_crc =
     \<lparr>b_entries = (if capacity > 0 then Some (\<lambda>i. zero_builder_entry) else None),
      b_entries_size = (if capacity > 0 then sizeof_StpArchiveBuilderEntry * capacity else 0),
      b_crc_data =
        (if generate_crc \<and> capacity > 0 then Some (replicate capacity 0) else None),
      b_count = 0,
      b_capacity = capacity,
      b_enable_crc = generate_crc\<rparr>"

text \<open>
  \<^verbatim>\<open>
  bool StpBuilderReserve(StpArchiveBuilder* builder, size_t capacity) {
      if (builder == NULL) { StpSetError(STP_ERROR_INVALID_ARGUMENT, ...); return false; }
      if (builder->entries == NULL) {
          builder->entries = malloc(capacity * sizeof(StpEntry));
          builder->capacity = capacity;
          builder->count = 0;
          return true;
      }
      if (capacity <= builder->capacity) { StpSetError(STP_ERROR_INVALID_ARGUMENT, ...); return false; }
      StpArchiveBuilderEntry* entries = calloc(capacity, sizeof(StpArchiveBuilderEntry));
      ...
      memcpy(entries, builder->entries, builder->count * sizeof(StpArchiveBuilderEntry));
      builder->capacity = capacity;
      free(builder->entries);
      builder->entries = entries;
      return true;
  }
  \<close>
  \<open>Returned b'\<close> is the return value \<open>true\<close> with the builder updated to
  \<open>b'\<close>; on \<open>Failed\<close> the builder is unchanged. The first branch sizes its
  block with \<^verbatim>\<open>sizeof(StpEntry)\<close>, the second one with
  \<^verbatim>\<open>sizeof(StpArchiveBuilderEntry)\<close>; the \<open>memcpy\<close> of the second branch
  reads \<open>count\<close> slots from the old block and writes them into the new one.
\<close>

definition StpBuilderReserve ::
  "StpArchiveBuilder option \<Rightarrow> nat \<Rightarrow> StpArchiveBuilder outcome" where
  "StpBuilderReserve builder capacity =
     (case builder of
        None \<Rightarrow> Failed STP_ERROR_INVALID_ARGUMENT
      | Some b \<Rightarrow>
          (case b_entries b of
             None \<Rightarrow>
               Returned (b\<lparr>b_entries := Some (\<lambda>i. zero_builder_entry),
                           b_entries_size := capacity * sizeof_StpEntry,
                           b_capacity := capacity, b_count := 0\<rparr>)
           | Some arr \<Rightarrow>
               if capacity \<le> b_capacity b then Failed STP_ERROR_INVALID_ARGUMENT
               else if capacity < b_count b \<or>
                       b_entries_size b < b_count b * sizeof_StpArchiveBuilderEntry
               then Undefined
               else Returned
                 (b\<lparr>b_entries :=
                      Some (\<lambda>i. if i < b_count b then arr i else zero_builder_entry),
                    b_entries_size := capacity * sizeof_StpArchiveBuilderEntry,
                    b_capacity := capacity\<rparr>)))"

text \<open>
  \<^verbatim>\<open>
  bool StpBuilderAppendBinary(StpArchiveBuilder* builder, const char* entry_name,
                              const void* buffer, size_t buffer_size) {
      if (builder == NULL) { StpSetError(STP_ERROR_INVALID_ARGUMENT, ...); return false; }
      if (entry_name == NULL || strlen(entry_name) == 0) {
          StpSetError(STP_ERROR_INVALID_ARGUMENT, ...); return false;
      }
      if (buffer == NULL) { StpSetError(STP_ERROR_INVALID_ARGUMENT, ...); return false; }
      if (buffer_size == 0) {
          StpSetError(STP_ERROR_OUT_OF_RANGE, "Failed to append file: Buffer size must be non-zero!");
      }
      void* data = malloc(buffer_size);
      ...
      memcpy(data, buffer, buffer_size);
      StpArchiveBuilderEntry entry = { .data = data, .size = buffer_size, };
      memset(entry.name, 0, 255);
      entry.name_len = (uint8_t)(strlen(entry_name) > 255 ? 255 : strlen(entry_name));
      memcpy(entry.name, entry_name, entry.name_len);
      if (builder->count >= builder->capacity) {
          if (!StpBuilderReserve(builder, builder->count + 5)) { free(data); return false; }
      }
      builder->entries[builder->count++] = entry;
      return true;
  }
  \<close>
  \<open>Returned (err, b', h')\<close> is the return value \<open>true\<close>; \<open>err\<close> is the error
  code that the call handed to \<open>StpSetError\<close> on its way, if it did. The test
  \<^verbatim>\<open>buffer_size == 0\<close> sets the error and does not return. The caller's buffer
  holds at least \<open>buffer_size\<close> bytes, or \<open>memcpy\<close> reads past it. The
  assignment to \<^verbatim>\<open>builder->entries[builder->count]\<close> writes the 280 bytes of a
  slot at the byte offset \<open>280 * count\<close> of the entry block, and past the
  block when the block is shorter than \<open>280 * (count + 1)\<close> bytes.
\<close>

definition builder_entry_of :: "byte list \<Rightarrow> addr \<Rightarrow> nat \<Rightarrow> StpArchiveBuilderEntry" where
  "builder_entry_of entry_name a buffer_size =
     (let name_len = (if strlen entry_name > 255 then 255 else strlen entry_name) in
      \<lparr>be_name = take name_len entry_name @ replicate (255 - name_len) 0,
       be_data = a,
       be_size = buffer_size,
       be_name_len = of_nat name_len\<rparr>)"

definition builder_store ::
  "StpArchiveBuilder \<Rightarrow> StpArchiveBuilderEntry \<Rightarrow> StpArchiveBuilder outcome" where
  "builder_store b entry =
     (case b_entries b of
        None \<Rightarrow> Undefined
      | Some arr \<Rightarrow>
          if b_entries_size b < (b_count b + 1) * sizeof_StpArchiveBuilderEntry then Undefined
          else Returned (b\<lparr>b_entries := Some (arr(b_count b := entry)),
                           b_count := Suc (b_count b)\<rparr>))"

text \<open>
  The next append stays inside the entry block: a builder without block is
  full, so that the call reserves one; a builder with a block is full and its
  block holds the \<open>count\<close> slots that the call moves to a larger block, or
  its block holds the slot at index \<open>count\<close>.
\<close>

definition has_room :: "StpArchiveBuilder \<Rightarrow> bool" where
  "has_room b =
     (case b_entries b of
        None \<Rightarrow> b_capacity b \<le> b_count b
      | Some arr \<Rightarrow>
          if b_capacity b \<le> b_count b
          then b_count b * sizeof_StpArchiveBuilderEntry \<le> b_entries_size b
          else (b_count b + 1) * sizeof_StpArchiveBuilderEntry \<le> b_entries_size b)"

definition StpBuilderAppendBinary ::
  "StpArchiveBuilder option \<Rightarrow> byte list option \<Rightarrow> byte list option \<Rightarrow> nat \<Rightarrow> heap \<Rightarrow>
   (StpErrorCode option \<times> StpArchiveBuilder \<times> heap) outcome" where
  "StpBuilderAppendBinary builder entry_name buffer buffer_size h =
     (case builder of
        None \<Rightarrow> Failed STP_ERROR_INVALID_ARGUMENT
      | Some b \<Rightarrow>
     (case entry_name of
        None \<Rightarrow> Failed STP_ERROR_INVALID_ARGUMENT
      | Some nm \<Rightarrow>
     if strlen nm = 0 then Failed STP_ERROR_INVALID_ARGUMENT
     else
     (case buffer of
        None \<Rightarrow> Failed STP_ERROR_INVALID_ARGUMENT
      | Some buf \<Rightarrow>
     (let err = (if buffer_size = 0 then Some STP_ERROR_OUT_OF_RANGE else None);
          (a, h1) = heap_malloc buffer_size h
      in
      if length buf < buffer_size then Undefined
      else
        (let h2 = heap_memcpy a (take buffer_size buf) h1;
             entry = builder_entry_of nm a buffer_size
         in
         (case (if b_count b \<ge> b_capacity b
                then StpBuilderReserve (Some b) (b_count b + 5)
                else Returned b) of
            Failed c \<Rightarrow> Failed c
          | Undefined \<Rightarrow> Undefined
          | Returned b1 \<Rightarrow>
              (case builder_store b1 entry of
                 Returned b2 \<Rightarrow> Returned (err, b2, h2)
               | Failed c \<Rightarrow> Failed c
               | Undefined \<Rightarrow> Undefined)))))))"

text \<open>
  \<^verbatim>\<open>
  void StpBuilderClear(StpArchiveBuilder* builder) {
      if (builder && builder->entries != NULL) {
          for (size_t i = 0; i < builder->count; i++) {
              free(builder->entries->data);
          }
          free(builder->entries);
          memset(builder, 0, sizeof(StpArchiveBuilder));
      }
  }
  \<close>
  \<^verbatim>\<open>builder->entries->data\<close> is the \<open>data\<close> field of slot 0 in every iteration.
\<close>

function clear_loop ::
  "(nat \<Rightarrow> StpArchiveBuilderEntry) \<Rightarrow> nat \<Rightarrow> nat \<Rightarrow> heap \<Rightarrow> heap outcome" where
  "clear_loop arr cnt i h =
     (if i < cnt then
        (case heap_free (be_data (arr 0)) h of
           None \<Rightarrow> Undefined
         | Some h' \<Rightarrow> clear_loop arr cnt (Suc i) h')
      else Returned h)"
  by pat_completeness auto
termination
  by (relation "measure (\<lambda>(arr, cnt, i, h). cnt - i)") auto

definition StpBuilderClear ::
  "StpArchiveBuilder option \<Rightarrow> heap \<Rightarrow> (StpArchiveBuilder option \<times> heap) outcome" where
  "StpBuilderClear builder h =
     (case builder of
        None \<Rightarrow> Returned (None, h)
      | Some b \<Rightarrow>
          (case b_entries b of
             None \<Rightarrow> Returned (Some b, h)
           | Some arr \<Rightarrow>
               (case clear_loop arr (b_count b) 0 h of
                  Returned h' \<Rightarrow> Returned (Some zero_builder, h')
                | Failed c \<Rightarrow> Failed c
                | Undefined \<Rightarrow> Undefined)))"

subsection \<open>Archives and entries\<close>

text \<open>
  \<^verbatim>\<open>
  struct StpArchive { void* data; size_t size; StpEntry* entries; size_t entry_count; };
  struct StpEntry   { void* origin; char entry_name[256]; size_t size; };
  \<close>
  \<open>a_data\<close> is the contents of the data buffer and \<open>a_entries\<close> the contents of
  the entry array (their lengths are the allocated sizes); \<open>e_origin\<close> is the
  pointer \<open>origin\<close> as an offset from the start of the data buffer.
\<close>

record StpEntry =
  e_origin :: nat
  e_entry_name :: "byte list"
  e_size :: nat

record StpArchive =
  a_data :: "byte list"
  a_size :: nat
  a_entries :: "StpEntry list"
  a_entry_count :: nat

definition zero_entry :: StpEntry where
  "zero_entry = \<lparr>e_origin = 0, e_entry_name = replicate 256 0, e_size = 0\<rparr>"

text \<open>The bytes an entry designates: \<open>size\<close> bytes of the data buffer from \<open>origin\<close>.\<close>

definition entry_payload :: "StpArchive \<Rightarrow> StpEntry \<Rightarrow> byte list" where
  "entry_payload archive e = take (e_size e) (drop (e_origin e) (a_data archive))"

text \<open>\<^verbatim>\<open>memcpy(buf + offset, bs, length bs)\<close> on the contents of a buffer.\<close>

definition write_at :: "byte list \<Rightarrow> nat \<Rightarrow> byte list \<Rightarrow> byte list" where
  "write_at buf offset bs = take offset buf @ bs @ drop (offset + length bs) buf"

text \<open>
  \<^verbatim>\<open>
  StpArchive* StpBuilderFinalize(StpArchiveBuilder* builder) {
      if (builder == NULL) { StpSetError(STP_ERROR_INVALID_ARGUMENT, ...); return false; }
      StpArchive* result = (StpArchive*)malloc(sizeof(StpArchive));
      ...
      size_t size = 0;
      for (size_t i = 0; i < builder->count; i++) { size += builder->entries[i].size; }
      result->data = malloc(size);
      ...
      result->entries = (StpEntry*)calloc(sizeof(StpEntry), builder->count);
      size_t offset = 0;
      for (size_t i = 0; i < builder->count; i++) {
          const size_t entry_size = builder->entries[i].size;
          void* origin = result->data + offset;
          memcpy(origin, builder->entries[i].data, entry_size);
          offset += entry_size;
          result->entries[i] = (StpEntry){ .origin = origin, .size = entry_size };
          memset(result->entries[i].entry_name, 0, 256);
          memcpy(result->entries[i].entry_name, builder->entries[i].name, builder->entries[i].name_len);
      }
      StpBuilderClear(builder);
      return result;
      ...
  }
  \<close>
  The struct returned by \<^verbatim>\<open>malloc(sizeof(StpArchive))\<close> has the contents
  \<open>fresh\<close>; the function assigns \<open>data\<close> and \<open>entries\<close> and no other field.
  The first loop adds the sizes, the second one copies each pending buffer to
  the running offset and fills the entry array, then the builder is cleared.
\<close>

definition pending_size :: "StpArchiveBuilder \<Rightarrow> nat outcome" where
  "pending_size b =
     (case b_entries b of
        None \<Rightarrow> if b_count b = 0 then Returned 0 else Undefined
      | Some arr \<Rightarrow> Returned (sum_list (map (\<lambda>i. be_size (arr i)) [0..<b_count b])))"

definition entry_of_pending :: "StpArchiveBuilderEntry \<Rightarrow> nat \<Rightarrow> StpEntry" where
  "entry_of_pending p offset =
     \<lparr>e_origin = offset,
      e_entry_name =
        take (unat (be_name_len p)) (be_name p) @ replicate (256 - unat (be_name_len p)) 0,
      e_size = be_size p\<rparr>"

function finalize_loop ::
  "(nat \<Rightarrow> StpArchiveBuilderEntry) \<Rightarrow> nat \<Rightarrow> heap \<Rightarrow> nat \<Rightarrow> nat \<Rightarrow>
   byte list \<Rightarrow> StpEntry list \<Rightarrow> (byte list \<times> StpEntry list) outcome" where
  "finalize_loop arr cnt h i offset buf es =
     (if i < cnt then
        (case blocks h (be_data (arr i)) of
           None \<Rightarrow> Undefined
         | Some blk \<Rightarrow>
             if length blk < be_size (arr i) then Undefined
             else finalize_loop arr cnt h (Suc i) (offset + be_size (arr i))
                    (write_at buf offset (take (be_size (arr i)) blk))
                    (es[i := entry_of_pending (arr i) offset]))
      else Returned (buf, es))"
  by pat_completeness auto
termination
  by (relation "measure (\<lambda>(arr, cnt, h, i, offset, buf, es). cnt - i)") auto

definition finalize_build ::
  "StpArchive \<Rightarrow> StpArchiveBuilder \<Rightarrow> heap \<Rightarrow> StpArchive outcome" where
  "finalize_build fresh b h =
     (case pending_size b of
        Failed c \<Rightarrow> Failed c
      | Undefined \<Rightarrow> Undefined
      | Returned sz \<Rightarrow>
          (case b_entries b of
             None \<Rightarrow>
               Returned (fresh\<lparr>a_data := replicate sz 0,
                               a_entries := replicate (b_count b) zero_entry\<rparr>)
           | Some arr \<Rightarrow>
               (case finalize_loop arr (b_count b) h 0 0 (replicate sz 0)
                       (replicate (b_count b) zero_entry) of
                  Failed c \<Rightarrow> Failed c
                | Undefined \<Rightarrow> Undefined
                | Returned (buf, es) \<Rightarrow>
                    Returned (fresh\<lparr>a_data := buf, a_entries := es\<rparr>))))"

definition StpBuilderFinalize ::
  "StpArchive \<Rightarrow> StpArchiveBuilder option \<Rightarrow> heap \<Rightarrow>
   (StpArchive \<times> StpArchiveBuilder option \<times> heap) outcome" where
  "StpBuilderFinalize fresh builder h =
     (case builder of
        None \<Rightarrow> Failed STP_ERROR_INVALID_ARGUMENT
      | Some b \<Rightarrow>
          (case finalize_build fresh b h of
             Failed c \<Rightarrow> Failed c
           | Undefined \<Rightarrow> Undefined
           | Returned result \<Rightarrow>
               (case StpBuilderClear (Some b) h of
                  Failed c \<Rightarrow> Failed c
                | Undefined \<Rightarrow> Undefined
                | Returned (b', h') \<Rightarrow> Returned (result, b', h'))))"

text \<open>
  \<open>StpArchiveOpenEntry\<close> and \<open>StpArchiveHasEntry\<close> walk the entry array up to
  \<open>archive->entry_count\<close> and compare names with \<open>strcmp\<close>. The entry returned
  is the one the returned pointer designates.
\<close>

function open_loop :: "StpArchive \<Rightarrow> byte list \<Rightarrow> nat \<Rightarrow> StpEntry outcome" where
  "open_loop archive name i =
     (if i < a_entry_count archive then
        (if i < length (a_entries archive) then
           (if strcmp_eq name (e_entry_name (a_entries archive ! i))
            then Returned (a_entries archive ! i)
            else open_loop archive name (Suc i))
         else Undefined)
      else Failed STP_ERROR_ENTRY_NOT_FOUND)"
  by pat_completeness auto
termination
  by (relation "measure (\<lambda>(archive, name, i). a_entry_count archive - i)") auto

definition StpArchiveOpenEntry ::
  "StpArchive option \<Rightarrow> byte list option \<Rightarrow> StpEntry outcome" where
  "StpArchiveOpenEntry archive name =
     (case name of
        None \<Rightarrow> Failed STP_ERROR_INVALID_ARGUMENT
      | Some nm \<Rightarrow>
          if strlen nm = 0 then Failed STP_ERROR_INVALID_ARGUMENT
          else (case archive of
                  None \<Rightarrow> Failed STP_ERROR_INVALID_ARGUMENT
                | Some a \<Rightarrow> open_loop a nm 0))"

function has_loop :: "StpArchive \<Rightarrow> byte list \<Rightarrow> nat \<Rightarrow> bool outcome" where
  "has_loop archive name i =
     (if i < a_entry_count archive then
        (if i < length (a_entries archive) then
           (if strcmp_eq name (e_entry_name (a_entries archive ! i))
            then Returned True
            else has_loop archive name (Suc i))
         else Undefined)
      else Returned False)"
  by pat_completeness auto
termination
  by (relation "measure (\<lambda>(archive, name, i). a_entry_count archive - i)") auto

definition StpArchiveHasEntry ::
  "StpArchive option \<Rightarrow> byte list option \<Rightarrow> bool outcome" where
  "StpArchiveHasEntry archive name =
     (case name of
        None \<Rightarrow> Returned False
      | Some nm \<Rightarrow>
          if strlen nm > 0 then
            (case archive of
               None \<Rightarrow> Returned False
             | Some a \<Rightarrow> has_loop a nm 0)
          else Returned False)"

text \<open>
  \<^verbatim>\<open>
  ssize_t StpReadEntry(const StpEntry* entry, void* buffer_out, const size_t buffer_max) {
      if (entry == NULL) { StpSetError(STP_ERROR_INVALID_ARGUMENT, ...); return -1; }
      if (buffer_out == NULL) { StpSetError(STP_ERROR_INVALID_ARGUMENT, ...); return -1; }
      if (buffer_max == 0) { StpSetError(STP_ERROR_OUT_OF_RANGE, ...); return -1; }
      const size_t size = entry->size > buffer_max ? buffer_max : entry->size;
      memcpy(buffer_out, entry->entry_name, size);
      return (ssize_t)size;
  }
  \<close>
  \<open>Returned (n, copied)\<close> is the return value \<open>n\<close>, with \<open>copied\<close> the bytes that
  \<open>memcpy\<close> placed at the start of the destination: the first \<open>n\<close> bytes of
  the 256-byte name field. \<open>buffer_out\<close> is the destination as it was
  allocated. When \<open>n\<close> exceeds the 256 bytes of the field, \<open>memcpy\<close> reads
  past the array, and when it exceeds the destination, \<open>memcpy\<close> writes past
  it.
\<close>

definition StpReadEntry ::
  "StpEntry option \<Rightarrow> byte list option \<Rightarrow> nat \<Rightarrow> (nat \<times> byte list) outcome" where
  "StpReadEntry entry buffer_out buffer_max =
     (case entry of
        None \<Rightarrow> Failed STP_ERROR_INVALID_ARGUMENT
      | Some e \<Rightarrow>
          (case buffer_out of
             None \<Rightarrow> Failed STP_ERROR_INVALID_ARGUMENT
           | Some buf \<Rightarrow>
               if buffer_max = 0 then Failed STP_ERROR_OUT_OF_RANGE
               else
                 (let n = (if e_size e > buffer_max then buffer_max else e_size e) in
                  if 256 < n \<or> length buf < n then Undefined
                  else Returned (n, take n (e_entry_name e)))))"

subsection \<open>Streams and the wire header\<close>

text \<open>
  A \<^verbatim>\<open>FILE*\<close> is the contents of the file and the position of the stream.
  \<open>fread size nmemb f\<close> reads up to \<open>size * nmemb\<close> bytes and returns, as
  \<^verbatim>\<open>fread\<close> does, the number of complete items read (not the number of
  bytes), the bytes, and the advanced stream.
\<close>

record FILE =
  f_bytes :: "byte list"
  f_pos :: nat

definition fread :: "nat \<Rightarrow> nat \<Rightarrow> FILE \<Rightarrow> nat \<times> byte list \<times> FILE" where
  "fread sz nmemb f =
     (let got = take (sz * nmemb) (drop (f_pos f) (f_bytes f)) in
      ((if sz = 0 then 0 else length got div sz), got, f\<lparr>f_pos := f_pos f + length got\<rparr>))"

definition fwrite :: "byte list \<Rightarrow> FILE \<Rightarrow> FILE" where
  "fwrite bs f =
     f\<lparr>f_bytes :=
         take (f_pos f) (f_bytes f) @ replicate (f_pos f - length (f_bytes f)) 0 @ bs @
         drop (f_pos f + length bs) (f_bytes f),
       f_pos := f_pos f + length bs\<rparr>"

definition fseek_set :: "nat \<Rightarrow> FILE \<Rightarrow> FILE" where
  "fseek_set off f = f\<lparr>f_pos := off\<rparr>"

definition le32 :: "u32 \<Rightarrow> byte list" where
  "le32 w = [ucast w, ucast (drop_bit 8 w), ucast (drop_bit 16 w), ucast (drop_bit 24 w)]"

definition un_le32 :: "byte list \<Rightarrow> u32" where
  "un_le32 bs =
     (let p = bs @ replicate 4 0 in
      ucast (p ! 0) OR push_bit 8 (ucast (p ! 1)) OR push_bit 16 (ucast (p ! 2)) OR
      push_bit 24 (ucast (p ! 3)))"

text \<open>
  \<^verbatim>\<open>
  typedef struct StpArchiveHeader {
      char magic[4];
      uint8_t version_major; uint8_t version_minor; uint8_t reserved_0;
      struct { uint8_t compressed : 1; uint8_t crc_enabled : 1; uint8_t reserved_1 : 6; };
      uint32_t raw_size; uint32_t uncompressed_size;
      uint32_t data_origin; uint32_t crc_origin; uint32_t entry_count;
  } StpArchiveHeader;
  \<close>
  The struct is written and read as its 28 bytes, integers little-endian, the
  flag bits from bit 0 upwards.
\<close>

record StpArchiveHeader =
  h_magic :: "byte list"
  h_version_major :: byte
  h_version_minor :: byte
  h_reserved_0 :: byte
  h_compressed :: bool
  h_crc_enabled :: bool
  h_reserved_1 :: byte
  h_raw_size :: u32
  h_uncompressed_size :: u32
  h_data_origin :: u32
  h_crc_origin :: u32
  h_entry_count :: u32

definition sizeof_header :: nat where
  "sizeof_header = 28"

definition STPA :: "byte list" where
  "STPA = [0x53, 0x54, 0x50, 0x41]"

definition APTS :: "byte list" where
  "APTS = [0x41, 0x50, 0x54, 0x53]"

definition header_bytes :: "StpArchiveHeader \<Rightarrow> byte list" where
  "header_bytes hdr =
     take 4 (h_magic hdr @ replicate 4 0) @
     [h_version_major hdr, h_version_minor hdr, h_reserved_0 hdr,
      (if h_compressed hdr then 1 else 0) OR (if h_crc_enabled hdr then 2 else 0) OR
      push_bit 2 (h_reserved_1 hdr)] @
     le32 (h_raw_size hdr) @ le32 (h_uncompressed_size hdr) @ le32 (h_data_origin hdr) @
     le32 (h_crc_origin hdr) @ le32 (h_entry_count hdr)"

definition header_of_bytes :: "byte list \<Rightarrow> StpArchiveHeader" where
  "header_of_bytes bs =
     (let p = bs @ replicate 28 0 in
      \<lparr>h_magic = take 4 p,
       h_version_major = p ! 4,
       h_version_minor = p ! 5,
       h_reserved_0 = p ! 6,
       h_compressed = bit (p ! 7) 0,
       h_crc_enabled = bit (p ! 7) 1,
       h_reserved_1 = drop_bit 2 (p ! 7),
       h_raw_size = un_le32 (take 4 (drop 8 p)),
       h_uncompressed_size = un_le32 (take 4 (drop 12 p)),
       h_data_origin = un_le32 (take 4 (drop 16 p)),
       h_crc_origin = un_le32 (take 4 (drop 20 p)),
       h_entry_count = un_le32 (take 4 (drop 24 p))\<rparr>)"

subsection \<open>Writing an archive\<close>

text \<open>
  \<^verbatim>\<open>
  StpArchiveHeader header = {
      .magic = { 'S', 'T', 'P', 'A' },
      .version_major = STP_VERSION_MAJOR, .version_minor = STP_VERSION_MINOR,
      .compressed = compressed, .crc_enabled = crc_data != NULL,
      .raw_size = archive->size, .entry_count = archive->entry_count,
      .data_origin = sizeof(StpArchiveHeader), .crc_origin = 0
  };
  for (size_t i = 0; i < archive->entry_count; i++) {
      header.data_origin += strlen(archive->entries[i].entry_name) + 1;
      header.data_origin += sizeof(uint32_t) * 2;
  }
  size_t data_size = archive->size;
  void* data = malloc(data_size);
  if (compressed) {
      size_t compressed_size = 0;
      compress(data, &compressed_size, archive->data, archive->size);
      data_size = compressed_size;
  } else {
      memcpy(data, archive->data, archive->size);
  }
  header.crc_origin = header.data_origin + data_size;
  fwrite(&header, sizeof(header), 1, file);
  for (size_t i = 0; i < archive->entry_count; i++) {
      const uint8_t name_len = strlen(archive->entries[i].entry_name);
      const uint32_t origin = (uint32_t)(archive->entries[i].origin - archive->data);
      const uint32_t size = (uint32_t)archive->entries[i].size;
      fwrite(&name_len, 1, 1, file);
      fwrite(archive->entries[i].entry_name, name_len, 1, file);
      fwrite(&origin, sizeof(origin), 1, file);
      fwrite(&size, sizeof(size), 1, file);
  }
  fwrite(data, 1, data_size, file);
  if (crc_data) { fwrite(crc_data, sizeof(uint32_t), archive->entry_count, file); }
  return true;
  \<close>
  \<open>StpArchiveWriteToFileF_CRC\<close>. The compressor of zlib is an argument:
  \<open>compress cap src\<close> is what \<^verbatim>\<open>compress(dest, &destLen, src, srcLen)\<close> leaves in
  \<open>dest\<close> when \<open>destLen\<close> holds \<open>cap\<close> on entry, the length of the result
  being the value of \<open>destLen\<close> on exit. The code passes \<open>compressed_size\<close>,
  which it initialised to 0. \<open>Returned f\<close> is the return value \<open>true\<close> with the
  stream left as \<open>f\<close>.
\<close>

function data_origin_loop :: "StpArchive \<Rightarrow> nat \<Rightarrow> u32 \<Rightarrow> u32 outcome" where
  "data_origin_loop archive i origin =
     (if i < a_entry_count archive then
        (if i < length (a_entries archive) then
           data_origin_loop archive (Suc i)
             (origin + of_nat (strlen (e_entry_name (a_entries archive ! i)) + 1) + 8)
         else Undefined)
      else Returned origin)"
  by pat_completeness auto
termination
  by (relation "measure (\<lambda>(archive, i, origin). a_entry_count archive - i)") auto

definition entry_record :: "StpEntry \<Rightarrow> byte list" where
  "entry_record e =
     (let name_len = (of_nat (strlen (e_entry_name e)) :: byte);
          origin = (of_nat (e_origin e) :: u32);
          sz = (of_nat (e_size e) :: u32)
      in [name_len] @ take (unat name_len) (e_entry_name e) @ le32 origin @ le32 sz)"

function write_entries_loop :: "StpArchive \<Rightarrow> nat \<Rightarrow> FILE \<Rightarrow> FILE outcome" where
  "write_entries_loop archive i f =
     (if i < a_entry_count archive then
        (if i < length (a_entries archive) then
           write_entries_loop archive (Suc i) (fwrite (entry_record (a_entries archive ! i)) f)
         else Undefined)
      else Returned f)"
  by pat_completeness auto
termination
  by (relation "measure (\<lambda>(archive, i, f). a_entry_count archive - i)") auto

definition StpArchiveWriteToFileF_CRC ::
  "(nat \<Rightarrow> byte list \<Rightarrow> byte list) \<Rightarrow> StpArchive option \<Rightarrow> FILE option \<Rightarrow> bool \<Rightarrow>
   u32 list option \<Rightarrow> FILE outcome" where
  "StpArchiveWriteToFileF_CRC compress archive file compressed crc_data =
     (case archive of
        None \<Rightarrow> Failed STP_ERROR_INVALID_ARGUMENT
      | Some a \<Rightarrow>
     (case file of
        None \<Rightarrow> Failed STP_ERROR_INVALID_ARGUMENT
      | Some f \<Rightarrow>
     (case data_origin_loop a 0 (of_nat sizeof_header) of
        Failed c \<Rightarrow> Failed c
      | Undefined \<Rightarrow> Undefined
      | Returned origin \<Rightarrow>
     if length (a_data a) < a_size a then Undefined
     else
     (let stored = (if compressed then compress 0 (take (a_size a) (a_data a))
                    else take (a_size a) (a_data a));
          data_size = length stored;
          header =
            \<lparr>h_magic = STPA, h_version_major = 1, h_version_minor = 0, h_reserved_0 = 0,
             h_compressed = compressed, h_crc_enabled = (crc_data \<noteq> None),
             h_reserved_1 = 0,
             h_raw_size = of_nat (a_size a),
             h_uncompressed_size = 0,
             h_data_origin = origin,
             h_crc_origin = origin + of_nat data_size,
             h_entry_count = of_nat (a_entry_count a)\<rparr>
      in
      (case write_entries_loop a 0 (fwrite (header_bytes header) f) of
         Failed c \<Rightarrow> Failed c
       | Undefined \<Rightarrow> Undefined
       | Returned f1 \<Rightarrow>
           (case crc_data of
              None \<Rightarrow> Returned (fwrite stored f1)
            | Some crcs \<Rightarrow>
                if length crcs < a_entry_count a then Undefined
                else Returned
                  (fwrite (concat (map le32 (take (a_entry_count a) crcs)))
                     (fwrite stored f1))))))))"

function crc_table_loop :: "StpArchive \<Rightarrow> nat \<Rightarrow> u32 list \<Rightarrow> u32 list outcome" where
  "crc_table_loop archive i crcs =
     (if i < a_entry_count archive then
        (if i < length (a_entries archive) then
           (case StpCrc32 (drop (e_origin (a_entries archive ! i)) (a_data archive))
                   (e_size (a_entries archive ! i)) of
              Returned c \<Rightarrow> crc_table_loop archive (Suc i) (crcs[i := c])
            | Failed c \<Rightarrow> Failed c
            | Undefined \<Rightarrow> Undefined)
         else Undefined)
      else Returned crcs)"
  by pat_completeness auto
termination
  by (relation "measure (\<lambda>(archive, i, crcs). a_entry_count archive - i)") auto

definition StpArchiveWriteToFileF ::
  "(nat \<Rightarrow> byte list \<Rightarrow> byte list) \<Rightarrow> StpArchive option \<Rightarrow> FILE option \<Rightarrow> bool \<Rightarrow>
   bool \<Rightarrow> FILE outcome" where
  "StpArchiveWriteToFileF compress archive file compressed enable_crc =
     (if enable_crc then
        (case archive of
           None \<Rightarrow> Undefined
         | Some a \<Rightarrow>
             (case crc_table_loop a 0 (replicate (a_entry_count a) 0) of
                Returned crcs \<Rightarrow>
                  StpArchiveWriteToFileF_CRC compress archive file compressed (Some crcs)
              | Failed c \<Rightarrow> Failed c
              | Undefined \<Rightarrow> Undefined))
      else StpArchiveWriteToFileF_CRC compress archive file compressed None)"

subsection \<open>Reading an archive\<close>

text \<open>
  \<^verbatim>\<open>
  StpArchiveHeader header;
  if (fread(&header, sizeof(header), 1, file) < sizeof(header)) {
      STP_FAILURE(STP_ERROR_FILE_READ, "Failed to read archive header!");
  }
  if (memcmp(header.magic, "STPA", 4) != 0 || memcmp(header.magic, "APTS", 4) != 0) {
      STP_FAILURE(STP_ERROR_IDENTIFIER_MISMATCH, "Identifier doesn't match!");
  }
  \<close>
  \<open>magic_mismatch\<close> is the condition of the second test.
\<close>

definition magic_mismatch :: "byte list \<Rightarrow> bool" where
  "magic_mismatch magic = (take 4 magic \<noteq> STPA \<or> take 4 magic \<noteq> APTS)"

text \<open>
  \<^verbatim>\<open>
  typedef struct StpEntryRaw {
      char entry_name[255]; uint32_t origin, size; uint8_t name_len;
  } StpEntryRaw;
  \<close>
  The loop over the entry table compares each \<open>fread\<close> result with the size
  in bytes of the field it fills.
\<close>

record StpEntryRaw =
  r_entry_name :: "byte list"
  r_origin :: u32
  r_size :: u32
  r_name_len :: byte

function read_entries_loop ::
  "nat \<Rightarrow> nat \<Rightarrow> FILE \<Rightarrow> StpEntryRaw list \<Rightarrow> (StpEntryRaw list \<times> FILE) outcome" where
  "read_entries_loop cnt i f raws =
     (if i < cnt then
        (let (n1, b1, f1) = fread 1 1 f in
         if n1 < 1 then Failed STP_ERROR_FILE_READ
         else
           (let name_len = (b1 @ [0]) ! 0 in
            if name_len = 0 then Failed STP_ERROR_OUT_OF_RANGE
            else
              (let (n2, b2, f2) = fread 1 (unat name_len) f1 in
               if n2 < unat name_len then Failed STP_ERROR_FILE_READ
               else
                 (let (n3, b3, f3) = fread 4 1 f2 in
                  if n3 < 4 then Failed STP_ERROR_FILE_READ
                  else
                    (let (n4, b4, f4) = fread 4 1 f3 in
                     if n4 < 4 then Failed STP_ERROR_FILE_READ
                     else read_entries_loop cnt (Suc i) f4
                            (raws[i := \<lparr>r_entry_name = b2 @ replicate (255 - length b2) 0,
                                         r_origin = un_le32 b3, r_size = un_le32 b4,
                                         r_name_len = name_len\<rparr>]))))))
      else Returned (raws, f))"
  by pat_completeness auto
termination
  by (relation "measure (\<lambda>(cnt, i, f, raws). cnt - i)") auto

definition zero_raw :: StpEntryRaw where
  "zero_raw = \<lparr>r_entry_name = replicate 255 0, r_origin = 0, r_size = 0, r_name_len = 0\<rparr>"

definition entry_of_raw :: "StpEntryRaw \<Rightarrow> StpEntry" where
  "entry_of_raw r =
     \<lparr>e_origin = unat (r_origin r),
      e_entry_name =
        take (unat (r_name_len r)) (r_entry_name r) @ replicate (256 - unat (r_name_len r)) 0,
      e_size = unat (r_size r)\<rparr>"

function crc_check_loop :: "StpArchive \<Rightarrow> nat \<Rightarrow> u32 list \<Rightarrow> nat \<Rightarrow> unit outcome" where
  "crc_check_loop archive cnt crcs i =
     (if i < cnt then
        (if i < length (a_entries archive) \<and> i < length crcs then
           (case StpCrc32 (drop (e_origin (a_entries archive ! i)) (a_data archive))
                   (e_size (a_entries archive ! i)) of
              Returned c \<Rightarrow>
                if c \<noteq> crcs ! i then Failed STP_ERROR_CRC
                else crc_check_loop archive cnt crcs (Suc i)
            | Failed c \<Rightarrow> Failed c
            | Undefined \<Rightarrow> Undefined)
         else Undefined)
      else Returned ())"
  by pat_completeness auto
termination
  by (relation "measure (\<lambda>(archive, cnt, crcs, i). cnt - i)") auto

text \<open>
  The part of \<open>StpOpenArchiveFromFile\<close> that follows the read of the header.
  The decompressor of zlib is an argument, as the compressor is:
  \<open>uncompress cap src\<close> is what \<^verbatim>\<open>uncompress(dest, &destLen, src, srcLen)\<close> produces
  when \<open>destLen\<close> holds \<open>cap\<close> on entry; the code passes \<^verbatim>\<open>&result->size\<close>, a
  field of the fresh struct that it has not assigned. The function assigns
  \<open>data\<close>, \<open>size\<close> and \<open>entries\<close> of the result and no other field.
\<close>

definition open_after_header ::
  "StpArchive \<Rightarrow> (nat \<Rightarrow> byte list \<Rightarrow> byte list) \<Rightarrow> StpArchiveHeader \<Rightarrow> FILE \<Rightarrow>
   StpArchive outcome" where
  "open_after_header fresh uncompress header f =
     (if magic_mismatch (h_magic header) then Failed STP_ERROR_IDENTIFIER_MISMATCH
      else
      (case read_entries_loop (unat (h_entry_count header)) 0 f
              (replicate (unat (h_entry_count header)) zero_raw) of
         Failed c \<Rightarrow> Failed c
       | Undefined \<Rightarrow> Undefined
       | Returned (raws, f1) \<Rightarrow>
      (let (n, raw_data, f2) =
             fread 1 (unat (h_raw_size header)) (fseek_set (unat (h_data_origin header)) f1)
       in
       if n < unat (h_raw_size header) then Failed STP_ERROR_FILE_READ
       else
       (let produced = uncompress (a_size fresh) raw_data;
            result =
              (if h_compressed header
               then fresh\<lparr>a_data :=
                            produced @
                            replicate (unat (h_uncompressed_size header) - length produced) 0,
                          a_size := length produced\<rparr>
               else fresh\<lparr>a_data := raw_data, a_size := unat (h_raw_size header)\<rparr>)
        in
        if h_compressed header \<and> unat (h_uncompressed_size header) < length produced
        then Undefined
        else
        (let result = result\<lparr>a_entries := map entry_of_raw raws\<rparr> in
         if h_crc_enabled header then
           (let (m, crc_bytes, f3) =
                  fread 4 (unat (h_entry_count header))
                    (fseek_set (unat (h_crc_origin header)) f2)
            in
            if m < unat (h_entry_count header) * 4 then Failed STP_ERROR_FILE_READ
            else
              (case crc_check_loop result (unat (h_entry_count header))
                      (map (\<lambda>k. un_le32 (take 4 (drop (4 * k) crc_bytes)))
                         [0..<unat (h_entry_count header)]) 0 of
                 Returned u \<Rightarrow> Returned result
               | Failed c \<Rightarrow> Failed c
               | Undefined \<Rightarrow> Undefined))
         else Returned result)))))"

definition StpOpenArchiveFromFile ::
  "StpArchive \<Rightarrow> (nat \<Rightarrow> byte list \<Rightarrow> byte list) \<Rightarrow> FILE option \<Rightarrow> StpArchive outcome" where
  "StpOpenArchiveFromFile fresh uncompress file =
     (case file of
        None \<Rightarrow> Failed STP_ERROR_INVALID_ARGUMENT
      | Some f \<Rightarrow>
          (let (n, header, f1) = fread sizeof_header 1 f in
           if n < sizeof_header then Failed STP_ERROR_FILE_READ
           else open_after_header fresh uncompress (header_of_bytes header) f1))"

subsection \<open>The path forms\<close>

text \<open>
  A file system says of each path whether it names a file that can be read and
  rewritten (\<open>File\<close> with its contents), names no file and admits none
  (\<open>Uncreatable\<close>: a directory on the way is missing or cannot be written), or
  names no file and admits one (no node).
  \<^verbatim>\<open>stat(filename, &st) == 0\<close> holds when the path names a file;
  \<^verbatim>\<open>fopen(filename, "rb")\<close> opens a file at position 0;
  \<^verbatim>\<open>fopen(filename, "wb")\<close> creates or truncates the file, and fails on the empty
  path and on a path that admits no file.
  \<^verbatim>\<open>
  StpArchive* StpOpenArchive(const char* filename) {
      struct stat st;
      if (stat(filename, &st) == 0) {
          StpSetError(STP_ERROR_FILE_NOT_FOUND, "Failed to open file \"%s\": File doesn't exists!", filename);
          return NULL;
      }
      FILE* file = fopen(filename, "rb");
      if (!file) { StpSetError(STP_ERROR_FILE_OPEN, ...); return NULL; }
      StpArchive* archive = StpOpenArchiveFromFile(file);
      fclose(file);
      return archive;
  }
  \<close>
\<close>

datatype node = File "byte list" | Uncreatable

type_synonym filesystem = "byte list \<Rightarrow> node option"

definition stat_ok :: "filesystem \<Rightarrow> byte list \<Rightarrow> bool" where
  "stat_ok fs filename =
     (case fs (cstr filename) of
        Some (File bs) \<Rightarrow> True
      | Some Uncreatable \<Rightarrow> False
      | None \<Rightarrow> False)"

definition fopen_rb :: "filesystem \<Rightarrow> byte list \<Rightarrow> FILE option" where
  "fopen_rb fs filename =
     (case fs (cstr filename) of
        Some (File bs) \<Rightarrow> Some \<lparr>f_bytes = bs, f_pos = 0\<rparr>
      | Some Uncreatable \<Rightarrow> None
      | None \<Rightarrow> None)"

definition fopen_wb :: "filesystem \<Rightarrow> byte list \<Rightarrow> FILE option" where
  "fopen_wb fs filename =
     (if strlen filename = 0 then None
      else (case fs (cstr filename) of
              Some Uncreatable \<Rightarrow> None
            | Some (File bs) \<Rightarrow> Some \<lparr>f_bytes = [], f_pos = 0\<rparr>
            | None \<Rightarrow> Some \<lparr>f_bytes = [], f_pos = 0\<rparr>))"

definition StpOpenArchive ::
  "StpArchive \<Rightarrow> (nat \<Rightarrow> byte list \<Rightarrow> byte list) \<Rightarrow> filesystem \<Rightarrow> byte list \<Rightarrow>
   StpArchive outcome" where
  "StpOpenArchive fresh uncompress fs filename =
     (if stat_ok fs filename then Failed STP_ERROR_FILE_NOT_FOUND
      else
        (case fopen_rb fs filename of
           None \<Rightarrow> Failed STP_ERROR_FILE_OPEN
         | Some f \<Rightarrow> StpOpenArchiveFromFile fresh uncompress (Some f)))"

text \<open>
  \<open>StpArchiveWriteToFile\<close>: \<open>Returned fs'\<close> is the return value \<open>true\<close> with the
  file system left as \<open>fs'\<close>.
\<close>

definition StpArchiveWriteToFile ::
  "(nat \<Rightarrow> byte list \<Rightarrow> byte list) \<Rightarrow> filesystem \<Rightarrow> StpArchive option \<Rightarrow> byte list \<Rightarrow>
   bool \<Rightarrow> bool \<Rightarrow> filesystem outcome" where
  "StpArchiveWriteToFile compress fs archive filename compressed enable_crc =
     (case archive of
        None \<Rightarrow> Failed STP_ERROR_INVALID_ARGUMENT
      | Some a \<Rightarrow>
          (case fopen_wb fs filename of
             None \<Rightarrow> Failed STP_ERROR_FILE_OPEN
           | Some f \<Rightarrow>
               (case StpArchiveWriteToFileF compress archive (Some f) compressed enable_crc of
                  Returned f' \<Rightarrow> Returned (fs(cstr filename := Some (File (f_bytes f'))))
                | Failed c \<Rightarrow> Failed c
                | Undefined \<Rightarrow> Undefined)))"

text \<open>
  \<^verbatim>\<open>
  bool StpBuilderFinalizeToFileF(StpArchiveBuilder* builder, FILE* file, const bool compressed) {
      const bool enable_crc = builder->enable_crc;
      StpArchive* archive = StpBuilderFinalize(builder);
      if (archive == NULL) { return false; }
      StpArchiveWriteToFileF(archive, file, compressed, enable_crc);
      StpCloseArchive(&archive);
      return true;
  }
  \<close>
  The result of the write is not inspected; \<open>Returned\<close> carries the stream as
  the write left it (the stream as it was when the write gave up), the builder
  and the heap.
\<close>

definition StpBuilderFinalizeToFileF ::
  "(nat \<Rightarrow> byte list \<Rightarrow> byte list) \<Rightarrow> StpArchive \<Rightarrow> StpArchiveBuilder option \<Rightarrow>
   FILE option \<Rightarrow> bool \<Rightarrow> heap \<Rightarrow> (FILE option \<times> StpArchiveBuilder option \<times> heap) outcome" where
  "StpBuilderFinalizeToFileF compress fresh builder file compressed h =
     (case builder of
        None \<Rightarrow> Undefined
      | Some b \<Rightarrow>
          (let enable_crc = b_enable_crc b in
           (case StpBuilderFinalize fresh builder h of
              Failed c \<Rightarrow> Failed c
            | Undefined \<Rightarrow> Undefined
            | Returned (archive, b', h') \<Rightarrow>
                (case StpArchiveWriteToFileF compress (Some archive) file compressed enable_crc of
                   Returned f' \<Rightarrow> Returned (Some f', b', h')
                 | Failed c \<Rightarrow> Returned (file, b', h')
                 | Undefined \<Rightarrow> Undefined))))"

subsection \<open>Call sequences and sample data\<close>

text \<open>
  Sequences of calls on a builder: each step runs when the previous one
  returned, on the builder and heap it left.
\<close>

definition then_append ::
  "(StpArchiveBuilder \<times> heap) outcome \<Rightarrow> byte list \<Rightarrow> byte list \<Rightarrow>
   (StpArchiveBuilder \<times> heap) outcome" where
  "then_append s name bytes =
     (case s of
        Returned (b, h) \<Rightarrow>
          (case StpBuilderAppendBinary (Some b) (Some name) (Some bytes) (length bytes) h of
             Returned (err, b', h') \<Rightarrow> Returned (b', h')
           | Failed c \<Rightarrow> Failed c
           | Undefined \<Rightarrow> Undefined)
      | Failed c \<Rightarrow> Failed c
      | Undefined \<Rightarrow> Undefined)"

definition then_finalize ::
  "StpArchive \<Rightarrow> (StpArchiveBuilder \<times> heap) outcome \<Rightarrow>
   (StpArchive \<times> StpArchiveBuilder option \<times> heap) outcome" where
  "then_finalize fresh s =
     (case s of
        Returned (b, h) \<Rightarrow> StpBuilderFinalize fresh (Some b) h
      | Failed c \<Rightarrow> Failed c
      | Undefined \<Rightarrow> Undefined)"

fun append_all ::
  "(StpArchiveBuilder \<times> heap) outcome \<Rightarrow> (byte list \<times> byte list) list \<Rightarrow>
   (StpArchiveBuilder \<times> heap) outcome" where
  "append_all s [] = s"
| "append_all s (item # items) = append_all (then_append s (fst item) (snd item)) items"

text \<open>The error code that a call of \<open>StpBuilderAppendBinary\<close> handed to \<open>StpSetError\<close>.\<close>

definition append_error ::
  "(StpErrorCode option \<times> StpArchiveBuilder \<times> heap) outcome \<Rightarrow> StpErrorCode option" where
  "append_error r =
     (case r of
        Returned (err, b, h) \<Rightarrow> err
      | Failed c \<Rightarrow> Some c
      | Undefined \<Rightarrow> None)"

text \<open>The names \<^verbatim>\<open>a.txt\<close>, \<^verbatim>\<open>b.bin\<close>, \<^verbatim>\<open>a.stp\<close> and the bytes of \<^verbatim>\<open>hello\<close>.\<close>

definition a_txt :: "byte list" where
  "a_txt = [0x61, 0x2E, 0x74, 0x78, 0x74]"

definition b_bin :: "byte list" where
  "b_bin = [0x62, 0x2E, 0x62, 0x69, 0x6E]"

definition a_stp :: "byte list" where
  "a_stp = [0x61, 0x2E, 0x73, 0x74, 0x70]"

definition hello :: "byte list" where
  "hello = [0x68, 0x65, 0x6C, 0x6C, 0x6F]"

text \<open>A fresh \<open>StpArchive\<close> block whose bytes happen to be zero.\<close>

definition zero_archive :: StpArchive where
  "zero_archive = \<lparr>a_data = [], a_size = 0, a_entries = [], a_entry_count = 0\<rparr>"

text \<open>
  The archive with the one entry \<^verbatim>\<open>a.txt\<close> holding \<^verbatim>\<open>hello\<close>, with \<open>size\<close> and
  \<open>entry_count\<close> holding the length of its buffer and of its entry array.
\<close>

definition hello_archive :: StpArchive where
  "hello_archive =
     \<lparr>a_data = hello, a_size = 5,
      a_entries = [\<lparr>e_origin = 0, e_entry_name = a_txt @ replicate 251 0, e_size = 5\<rparr>],
      a_entry_count = 1\<rparr>"

definition empty_file :: FILE where
  "empty_file = \<lparr>f_bytes = [], f_pos = 0\<rparr>"

definition no_files :: filesystem where
  "no_files = (\<lambda>p. None)"

text \<open>
  A stand-in for a compressor that respects the capacity it is given: it
  stores the source as it is, cut to the capacity.
\<close>

definition store_within :: "nat \<Rightarrow> byte list \<Rightarrow> byte list" where
  "store_within cap src = take cap src"

subsection \<open>Auxiliary notions for the statements\<close>

text \<open>
  The state of a builder between calls: fresh addresses are not \<^verbatim>\<open>NULL\<close>, a
  builder without entry array holds nothing, and once something is pending the
  buffer of slot 0 is not \<^verbatim>\<open>NULL\<close>.
\<close>

definition builder_inv :: "StpArchiveBuilder \<Rightarrow> heap \<Rightarrow> bool" where
  "builder_inv b h =
     (next_block h \<noteq> 0 \<and>
      (case b_entries b of
         None \<Rightarrow> b_count b = 0 \<and> b_capacity b = 0
       | Some arr \<Rightarrow> b_count b = 0 \<or> be_data (arr 0) \<noteq> 0))"

text \<open>
  The bytes of a pending entry, whether its buffer is live and large enough,
  and the sum of the sizes of the pending entries before index \<open>j\<close>.
\<close>

definition pending_payload :: "heap \<Rightarrow> StpArchiveBuilderEntry \<Rightarrow> byte list" where
  "pending_payload h p =
     (case blocks h (be_data p) of None \<Rightarrow> [] | Some blk \<Rightarrow> take (be_size p) blk)"

definition pending_ok :: "heap \<Rightarrow> StpArchiveBuilderEntry \<Rightarrow> bool" where
  "pending_ok h p =
     (case blocks h (be_data p) of None \<Rightarrow> False | Some blk \<Rightarrow> be_size p \<le> length blk)"

definition offset_of :: "(nat \<Rightarrow> StpArchiveBuilderEntry) \<Rightarrow> nat \<Rightarrow> nat" where
  "offset_of arr j = sum_list (map (\<lambda>k. be_size (arr k)) [0..<j])"

text \<open>A builder created with CRC generation, after one append.\<close>

definition one_pending :: "(StpArchiveBuilder \<times> heap) outcome" where
  "one_pending =
     then_append (Returned (StpCreateArchiveBuilder 0 True, empty_heap)) a_txt hello"

section \<open>Properties\<close>

declare StpCrc32_loop.simps [simp del]
declare clear_loop.simps [simp del]
declare finalize_loop.simps [simp del]
declare open_loop.simps [simp del]
declare has_loop.simps [simp del]
declare data_origin_loop.simps [simp del]
declare write_entries_loop.simps [simp del]
declare crc_table_loop.simps [simp del]
declare read_entries_loop.simps [simp del]
declare crc_check_loop.simps [simp del]

lemmas builder_defs =
  then_append_def then_finalize_def StpBuilderAppendBinary_def StpCreateArchiveBuilder_def
  StpBuilderReserve_def builder_store_def builder_entry_of_def heap_malloc_def heap_memcpy_def
  heap_free_def empty_heap_def StpBuilderFinalize_def finalize_build_def pending_size_def
  entry_of_pending_def StpBuilderClear_def write_at_def zero_builder_entry_def zero_entry_def
  strlen_def cstr_def a_txt_def hello_def b_bin_def Let_def
  sizeof_StpEntry_def sizeof_StpArchiveBuilderEntry_def
  clear_loop.simps finalize_loop.simps

lemmas writer_defs =
  StpArchiveWriteToFileF_def StpArchiveWriteToFileF_CRC_def StpArchiveWriteToFile_def
  fopen_wb_def fopen_rb_def hello_archive_def a_txt_def hello_def a_stp_def strlen_def cstr_def
  entry_record_def fwrite_def header_bytes_def sizeof_header_def le32_def STPA_def
  empty_file_def no_files_def Let_def
  data_origin_loop.simps write_entries_loop.simps crc_table_loop.simps

subsection \<open>Checksums\<close>

lemma crc32_fold_step:
  "crc32 (crc32 c (Some xs)) (Some ys) = crc32 c (Some (xs @ ys))"
  by simp

lemma StpCrc32_loop_eq:
  "i \<le> len \<Longrightarrow> len \<le> length data \<Longrightarrow>
   StpCrc32_loop data len i (crc32 c (Some (take i data))) =
   Returned (crc32 c (Some (take len data)))"
proof (induction "len - i" arbitrary: i)
  case 0
  then have "i = len" by simp
  then show ?case by (simp add: StpCrc32_loop.simps)
next
  case (Suc k)
  then have lt: "i < len" and ld: "i < length data" by simp_all
  have k: "k = len - Suc i" using Suc.hyps(2) by simp
  have le: "Suc i \<le> len" using lt by simp
  have tk: "take (Suc i) data = take i data @ [data ! i]"
    using ld by (simp add: take_Suc_conv_app_nth)
  have "StpCrc32_loop data len i (crc32 c (Some (take i data))) =
        StpCrc32_loop data len (Suc i)
          (crc32 (crc32 c (Some (take i data))) (Some [data ! i]))"
    using lt ld by (subst StpCrc32_loop.simps) simp
  also have "\<dots> = StpCrc32_loop data len (Suc i) (crc32 c (Some (take (Suc i) data)))"
    by (simp only: crc32_fold_step tk)
  also have "\<dots> = Returned (crc32 c (Some (take len data)))"
    using Suc.hyps(1) [OF k le Suc.prems(2)] .
  finally show ?case .
qed

lemma crc_byte_unroll:
  "crc_byte c b =
   crc_shift (crc_shift (crc_shift (crc_shift (crc_shift (crc_shift (crc_shift (crc_shift
     (c XOR ucast b))))))))"
  by (simp add: crc_byte_def eval_nat_numeral)

text \<open>The model of the primitive yields the check value of CRC-32 on \<^verbatim>\<open>123456789\<close>.\<close>

lemma crc32_check_value:
  "crc32 0 (Some [0x31, 0x32, 0x33, 0x34, 0x35, 0x36, 0x37, 0x38, 0x39]) = 0xCBF43926"
  by (simp add: crc_byte_unroll crc_shift_def)

lemma StpCrc32_hello: "StpCrc32 hello 5 = Returned 0x3610A686"
  by (simp add: StpCrc32_def StpCrc32_loop.simps hello_def crc_byte_unroll crc_shift_def)

text \<open>
  Claim C10. For every buffer and every length within it, \<open>StpCrc32\<close>, which
  feeds the bytes to \<open>crc32\<close> one at a time starting from
  \<open>crc32(0, NULL, 0)\<close>, returns the checksum that a single call of \<open>crc32\<close> on
  the whole buffer returns from the same initial value.
\<close>

theorem StpCrc32_whole_buffer:
  "len \<le> length data \<Longrightarrow>
   StpCrc32 data len = Returned (crc32 (crc32 0 None) (Some (take len data)))"
proof -
  assume len: "len \<le> length data"
  have z: "crc32 (crc32 0 None) (Some (take 0 data)) = crc32 0 None"
    by simp
  have "StpCrc32_loop data len 0 (crc32 (crc32 0 None) (Some (take 0 data))) =
        Returned (crc32 (crc32 0 None) (Some (take len data)))"
    by (rule StpCrc32_loop_eq) (simp_all add: len)
  then show ?thesis
    unfolding StpCrc32_def z .
qed

text \<open>The statement of C10 on the three bytes of \<^verbatim>\<open>abc\<close>.\<close>

theorem StpCrc32_whole_buffer_witness:
  "(3::nat) \<le> length [0x61, 0x62, 0x63 :: byte] \<and>
   StpCrc32 [0x61, 0x62, 0x63] 3 =
   Returned (crc32 (crc32 0 None) (Some (take 3 [0x61, 0x62, 0x63])))"
  using StpCrc32_whole_buffer [of 3 "[0x61, 0x62, 0x63]"] by simp

subsection \<open>Appending to a builder\<close>

lemma StpBuilderAppendBinary_Returned:
  assumes "strlen nm \<noteq> 0" and "n \<le> length buf"
    and "has_room b"
  shows "\<exists>b' h' arr.
           StpBuilderAppendBinary (Some b) (Some nm) (Some buf) n h =
             Returned (if n = 0 then Some STP_ERROR_OUT_OF_RANGE else None, b', h') \<and>
           b_entries b' = Some arr \<and> 0 < b_count b' \<and>
           arr (b_count b' - 1) = builder_entry_of nm (next_block h) n"
  using assms
  by (auto simp: StpBuilderAppendBinary_def StpBuilderReserve_def builder_store_def
        heap_malloc_def Let_def has_room_def sizeof_StpEntry_def
        sizeof_StpArchiveBuilderEntry_def split: option.splits if_splits)

text \<open>
  Claim C7, as the code has it. \<open>StpBuilderAppendBinary\<close> fails with
  \<open>STP_ERROR_INVALID_ARGUMENT\<close>, and so adds no pending entry, when the entry
  name is empty. For an empty byte buffer (\<open>buffer_size = 0\<close>) the error code
  that the call sets is \<open>STP_ERROR_OUT_OF_RANGE\<close>. A name longer than 255 bytes
  is cut to its first 255 bytes in the pending entry that the call stores. The
  second and third part are stated for a builder on which the append stays
  inside the entry block (\<open>has_room\<close>).
\<close>

theorem StpBuilderAppendBinary_amended:
  "(strlen nm = 0 \<longrightarrow>
      StpBuilderAppendBinary (Some b) (Some nm) buffer n h = Failed STP_ERROR_INVALID_ARGUMENT) \<and>
   (strlen nm \<noteq> 0 \<and> has_room b \<longrightarrow>
      append_error (StpBuilderAppendBinary (Some b) (Some nm) (Some buf) 0 h) =
        Some STP_ERROR_OUT_OF_RANGE) \<and>
   (255 < strlen nm \<and> n \<le> length buf \<and> has_room b \<longrightarrow>
      (\<exists>err b' h' arr.
         StpBuilderAppendBinary (Some b) (Some nm) (Some buf) n h = Returned (err, b', h') \<and>
         b_entries b' = Some arr \<and> 0 < b_count b' \<and>
         be_name (arr (b_count b' - 1)) = take 255 nm \<and>
         be_name_len (arr (b_count b' - 1)) = 255))"
proof (intro conjI impI)
  assume "strlen nm = 0"
  then show "StpBuilderAppendBinary (Some b) (Some nm) buffer n h =
             Failed STP_ERROR_INVALID_ARGUMENT"
    by (simp add: StpBuilderAppendBinary_def)
next
  assume a: "strlen nm \<noteq> 0 \<and> has_room b"
  from StpBuilderAppendBinary_Returned [of nm 0 buf b h] a
  obtain b' h' where
    "StpBuilderAppendBinary (Some b) (Some nm) (Some buf) 0 h =
       Returned (Some STP_ERROR_OUT_OF_RANGE, b', h')"
    by auto
  then show "append_error (StpBuilderAppendBinary (Some b) (Some nm) (Some buf) 0 h) =
             Some STP_ERROR_OUT_OF_RANGE"
    by (simp add: append_error_def)
next
  assume a: "255 < strlen nm \<and> n \<le> length buf \<and> has_room b"
  then have nz: "strlen nm \<noteq> 0" by simp
  have nm: "be_name (builder_entry_of nm a n) = take 255 nm"
    "be_name_len (builder_entry_of nm a n) = 255" for a
    using a by (simp_all add: builder_entry_of_def)
  from StpBuilderAppendBinary_Returned [of nm n buf b h] a nz
  obtain b' h' arr where
    "StpBuilderAppendBinary (Some b) (Some nm) (Some buf) n h =
       Returned (if n = 0 then Some STP_ERROR_OUT_OF_RANGE else None, b', h')"
    "b_entries b' = Some arr" "0 < b_count b'"
    "arr (b_count b' - 1) = builder_entry_of nm (next_block h) n"
    by auto
  then show "\<exists>err b' h' arr.
          StpBuilderAppendBinary (Some b) (Some nm) (Some buf) n h = Returned (err, b', h') \<and>
          b_entries b' = Some arr \<and> 0 < b_count b' \<and>
          be_name (arr (b_count b' - 1)) = take 255 nm \<and>
          be_name_len (arr (b_count b' - 1)) = 255"
    using nm by auto
qed

text \<open>
  The three parts of the amended C7 on a builder of capacity 0, which has room:
  an empty name, the name \<^verbatim>\<open>a.txt\<close> with an empty buffer, and a name of 300
  letters.
\<close>

theorem StpBuilderAppendBinary_amended_witness:
  "strlen [] = 0 \<and>
   StpBuilderAppendBinary (Some (StpCreateArchiveBuilder 0 False)) (Some []) (Some hello) 5
     empty_heap = Failed STP_ERROR_INVALID_ARGUMENT \<and>
   strlen a_txt \<noteq> 0 \<and>
   has_room (StpCreateArchiveBuilder 0 False) \<and>
   append_error
     (StpBuilderAppendBinary (Some (StpCreateArchiveBuilder 0 False)) (Some a_txt) (Some []) 0
        empty_heap) = Some STP_ERROR_OUT_OF_RANGE \<and>
   255 < strlen (replicate 300 0x61) \<and>
   (\<exists>err b' h' arr.
      StpBuilderAppendBinary (Some (StpCreateArchiveBuilder 0 False))
        (Some (replicate 300 0x61)) (Some hello) 5 empty_heap = Returned (err, b', h') \<and>
      b_entries b' = Some arr \<and> 0 < b_count b' \<and>
      be_name (arr (b_count b' - 1)) = replicate 255 0x61 \<and>
      be_name_len (arr (b_count b' - 1)) = 255)"
proof -
  have s0: "strlen [] = 0"
    and s1: "strlen a_txt \<noteq> 0"
    and s2: "255 < strlen (replicate 300 0x61)"
    by (simp_all add: strlen_def cstr_def a_txt_def takeWhile_replicate)
  have c: "has_room (StpCreateArchiveBuilder 0 False)"
    by (simp add: has_room_def StpCreateArchiveBuilder_def)
  have l: "(5::nat) \<le> length hello"
    by (simp add: hello_def)
  note t = StpBuilderAppendBinary_amended [of _ "StpCreateArchiveBuilder 0 False" _ _ empty_heap]
  have p1: "StpBuilderAppendBinary (Some (StpCreateArchiveBuilder 0 False)) (Some []) (Some hello) 5
              empty_heap = Failed STP_ERROR_INVALID_ARGUMENT"
    using t [of "[]" "Some hello" 5] s0 by blast
  have p2: "append_error
              (StpBuilderAppendBinary (Some (StpCreateArchiveBuilder 0 False)) (Some a_txt)
                 (Some []) 0 empty_heap) = Some STP_ERROR_OUT_OF_RANGE"
    using t [of a_txt _ _ "[]"] s1 c by blast
  have p3: "\<exists>err b' h' arr.
      StpBuilderAppendBinary (Some (StpCreateArchiveBuilder 0 False))
        (Some (replicate 300 0x61)) (Some hello) 5 empty_heap = Returned (err, b', h') \<and>
      b_entries b' = Some arr \<and> 0 < b_count b' \<and>
      be_name (arr (b_count b' - 1)) = take 255 (replicate 300 0x61) \<and>
      be_name_len (arr (b_count b' - 1)) = 255"
    using t [of "replicate 300 0x61" _ 5 hello] s2 c l by blast
  have tk: "take 255 (replicate 300 (0x61 :: byte)) = replicate 255 0x61"
    by simp
  show ?thesis
    using s0 s1 s2 c p1 p2 p3 unfolding tk by blast
qed

text \<open>
  C7 as stated fails on a non-empty name with an empty buffer: the call
  returns \<open>true\<close>, the error it set is \<open>STP_ERROR_OUT_OF_RANGE\<close>, and the
  builder holds one pending entry.
\<close>

theorem StpBuilderAppendBinary_counterexample:
  "(case StpBuilderAppendBinary (Some (StpCreateArchiveBuilder 0 False)) (Some a_txt) (Some [])
           0 empty_heap of
      Returned (err, b', h') \<Rightarrow> err = Some STP_ERROR_OUT_OF_RANGE \<and> b_count b' = 1
    | Failed c \<Rightarrow> False
    | Undefined \<Rightarrow> False)"
  by (simp add: builder_defs)

text \<open>
  The block that the first append reserves on a builder of capacity 0 has
  \<open>5 * 272\<close> bytes, room for four slots of 280 bytes: the fifth append writes
  past it.
\<close>

lemma has_room_create: "has_room (StpCreateArchiveBuilder capacity generate_crc)"
  by (simp add: has_room_def StpCreateArchiveBuilder_def sizeof_StpArchiveBuilderEntry_def)

lemma four_appends_no_room:
  "(case then_append
           (then_append
              (then_append
                 (then_append (Returned (StpCreateArchiveBuilder 0 False, empty_heap)) a_txt hello)
                 a_txt hello)
              a_txt hello)
           a_txt hello of
      Returned (b, h) \<Rightarrow>
        b_count b = 4 \<and> b_capacity b = 5 \<and> b_entries_size b = 1360 \<and> \<not> has_room b
    | Failed c \<Rightarrow> False
    | Undefined \<Rightarrow> False)"
  by (simp add: builder_defs has_room_def)

lemma fifth_append_overflows:
  "then_append
     (then_append
        (then_append
           (then_append
              (then_append (Returned (StpCreateArchiveBuilder 0 False, empty_heap)) a_txt hello)
              a_txt hello)
           a_txt hello)
        a_txt hello)
     a_txt hello = Undefined"
  by (simp add: builder_defs)

subsection \<open>Clearing a builder\<close>

lemma clear_loop_zero: "clear_loop arr 0 0 h = Returned h"
  by (simp add: clear_loop.simps)

lemma clear_loop_one:
  "be_data (arr 0) = 0 \<or> blocks h (be_data (arr 0)) \<noteq> None \<Longrightarrow>
   \<exists>h'. clear_loop arr (Suc 0) 0 h = Returned h'"
  by (auto simp: clear_loop.simps [of arr "Suc 0" 0] clear_loop.simps [of arr "Suc 0" "Suc 0"]
        heap_free_def split: option.splits)

text \<open>
  The second iteration of the release loop frees the buffer of slot 0 again.
\<close>

lemma clear_loop_twice:
  assumes "be_data (arr 0) \<noteq> 0" and "Suc i < cnt"
  shows "clear_loop arr cnt i h = Undefined"
proof (cases "heap_free (be_data (arr 0)) h")
  case None
  then show ?thesis using assms by (simp add: clear_loop.simps [of arr cnt i])
next
  case (Some h')
  then have gone: "blocks h' (be_data (arr 0)) = None"
    using assms(1) by (auto simp: heap_free_def split: option.splits)
  then have "heap_free (be_data (arr 0)) h' = None"
    using assms(1) by (simp add: heap_free_def)
  then have "clear_loop arr cnt (Suc i) h' = Undefined"
    using assms(2) by (simp add: clear_loop.simps [of arr cnt "Suc i"])
  then show ?thesis
    using Some assms(2) by (simp add: clear_loop.simps [of arr cnt i])
qed

lemma StpBuilderClear_twice:
  "b_entries b = Some arr \<Longrightarrow> 2 \<le> b_count b \<Longrightarrow> be_data (arr 0) \<noteq> 0 \<Longrightarrow>
   StpBuilderClear (Some b) h = Undefined"
  by (simp add: StpBuilderClear_def clear_loop_twice)

lemma StpBuilderClear_Returned:
  "StpBuilderClear (Some b) h = Returned (b', h') \<Longrightarrow>
   b' = Some (if b_entries b = None then b else zero_builder)"
  by (auto simp: StpBuilderClear_def split: option.splits outcome.splits)

lemma StpBuilderFinalize_Returned:
  "StpBuilderFinalize fresh (Some b) h = Returned (archive, b', h') \<Longrightarrow>
   b' = Some (if b_entries b = None then b else zero_builder)"
  by (auto simp: StpBuilderFinalize_def dest: StpBuilderClear_Returned split: outcome.splits)

text \<open>
  Claim C9, as the code has it. On a builder whose entry array is \<^verbatim>\<open>NULL\<close>,
  \<open>StpBuilderClear\<close> changes nothing. On a builder whose entry array is
  allocated and that holds no pending entry, or one pending entry whose buffer
  is live, it returns with the whole builder zeroed: no entries, count and
  capacity 0, CRC generation off. Whenever \<open>StpBuilderClear\<close> or
  \<open>StpBuilderFinalize\<close> returns, the builder is unchanged if its entry array
  was \<^verbatim>\<open>NULL\<close> and zeroed otherwise. \<open>StpBuilderFinalizeToFileF\<close> passes to the
  writer the flag that the builder had before it was finalized.
\<close>

theorem StpBuilderClear_amended:
  "(b_entries b = None \<longrightarrow> StpBuilderClear (Some b) h = Returned (Some b, h)) \<and>
   (\<forall>arr. b_entries b = Some arr \<and>
      (b_count b = 0 \<or>
       b_count b = Suc 0 \<and> (be_data (arr 0) = 0 \<or> blocks h (be_data (arr 0)) \<noteq> None)) \<longrightarrow>
      (\<exists>h'. StpBuilderClear (Some b) h = Returned (Some zero_builder, h'))) \<and>
   (b_entries zero_builder = None \<and> b_crc_data zero_builder = None \<and>
    b_count zero_builder = 0 \<and> b_capacity zero_builder = 0 \<and>
    b_enable_crc zero_builder = False) \<and>
   (\<forall>b' h'. StpBuilderClear (Some b) h = Returned (b', h') \<longrightarrow>
      b' = Some (if b_entries b = None then b else zero_builder)) \<and>
   (\<forall>archive b' h'. StpBuilderFinalize fresh (Some b) h = Returned (archive, b', h') \<longrightarrow>
      b' = Some (if b_entries b = None then b else zero_builder) \<and>
      StpBuilderFinalizeToFileF compress fresh (Some b) file compressed h =
        (case StpArchiveWriteToFileF compress (Some archive) file compressed (b_enable_crc b) of
           Returned f' \<Rightarrow> Returned (Some f', b', h')
         | Failed c \<Rightarrow> Returned (file, b', h')
         | Undefined \<Rightarrow> Undefined))"
proof (intro conjI allI impI)
  assume "b_entries b = None"
  then show "StpBuilderClear (Some b) h = Returned (Some b, h)"
    by (simp add: StpBuilderClear_def)
next
  fix arr
  assume a: "b_entries b = Some arr \<and>
      (b_count b = 0 \<or>
       b_count b = Suc 0 \<and> (be_data (arr 0) = 0 \<or> blocks h (be_data (arr 0)) \<noteq> None))"
  then consider "b_count b = 0"
    | "b_count b = Suc 0" "be_data (arr 0) = 0 \<or> blocks h (be_data (arr 0)) \<noteq> None"
    by auto
  then show "\<exists>h'. StpBuilderClear (Some b) h = Returned (Some zero_builder, h')"
  proof cases
    case 1
    then show ?thesis using a by (simp add: StpBuilderClear_def clear_loop_zero)
  next
    case 2
    from clear_loop_one [of arr h, OF 2(2)]
    obtain h' where "clear_loop arr (Suc 0) 0 h = Returned h'" ..
    then show ?thesis using a 2(1) by (simp add: StpBuilderClear_def)
  qed
next
  fix b' h'
  assume "StpBuilderClear (Some b) h = Returned (b', h')"
  then show "b' = Some (if b_entries b = None then b else zero_builder)"
    by (rule StpBuilderClear_Returned)
next
  fix archive b' h'
  assume "StpBuilderFinalize fresh (Some b) h = Returned (archive, b', h')"
  then show "b' = Some (if b_entries b = None then b else zero_builder)"
    by (rule StpBuilderFinalize_Returned)
next
  fix archive b' h'
  assume "StpBuilderFinalize fresh (Some b) h = Returned (archive, b', h')"
  then show "StpBuilderFinalizeToFileF compress fresh (Some b) file compressed h =
        (case StpArchiveWriteToFileF compress (Some archive) file compressed (b_enable_crc b) of
           Returned f' \<Rightarrow> Returned (Some f', b', h')
         | Failed c \<Rightarrow> Returned (file, b', h')
         | Undefined \<Rightarrow> Undefined)"
    by (simp add: StpBuilderFinalizeToFileF_def)
qed (simp_all add: zero_builder_def)

lemma one_pending_value:
  "one_pending =
     Returned
       (\<lparr>b_entries = Some ((\<lambda>i. zero_builder_entry)(0 := builder_entry_of a_txt 1 (length hello))),
         b_entries_size = 1360,
         b_crc_data = None, b_count = Suc 0, b_capacity = 5, b_enable_crc = True\<rparr>,
        \<lparr>blocks = (\<lambda>a. None)(1 := Some hello), next_block = 2\<rparr>)"
  by (simp add: one_pending_def then_append_def StpBuilderAppendBinary_def
        StpCreateArchiveBuilder_def StpBuilderReserve_def builder_store_def heap_malloc_def
        heap_memcpy_def empty_heap_def strlen_def cstr_def a_txt_def sizeof_StpEntry_def
        sizeof_StpArchiveBuilderEntry_def)

text \<open>
  The amended C9 on a builder created with capacity 0 and CRC generation, before
  and after one append: cleared before the append it keeps its flag, cleared
  after it the builder is zeroed.
\<close>

theorem StpBuilderClear_amended_witness:
  "b_entries (StpCreateArchiveBuilder 0 True) = None \<and>
   StpBuilderClear (Some (StpCreateArchiveBuilder 0 True)) empty_heap =
     Returned (Some (StpCreateArchiveBuilder 0 True), empty_heap) \<and>
   b_enable_crc (StpCreateArchiveBuilder 0 True) \<and>
   (case one_pending of
      Returned (b, h) \<Rightarrow>
        b_enable_crc b \<and> b_count b = Suc 0 \<and> b_entries b \<noteq> None \<and>
        (\<exists>h'. StpBuilderClear (Some b) h = Returned (Some zero_builder, h'))
    | Failed c \<Rightarrow> False
    | Undefined \<Rightarrow> False) \<and>
   b_enable_crc zero_builder = False"
proof -
  let ?b = "\<lparr>b_entries = Some ((\<lambda>i. zero_builder_entry)(0 := builder_entry_of a_txt 1 (length hello))),
             b_entries_size = 1360,
             b_crc_data = None, b_count = Suc 0, b_capacity = 5, b_enable_crc = True\<rparr>"
  let ?h = "\<lparr>blocks = (\<lambda>a. None)(1 := Some hello), next_block = 2\<rparr>"
  have n: "b_entries (StpCreateArchiveBuilder 0 True) = None"
    and f: "b_enable_crc (StpCreateArchiveBuilder 0 True)"
    by (simp_all add: StpCreateArchiveBuilder_def)
  have p1: "StpBuilderClear (Some (StpCreateArchiveBuilder 0 True)) empty_heap =
              Returned (Some (StpCreateArchiveBuilder 0 True), empty_heap)"
    using StpBuilderClear_amended [of "StpCreateArchiveBuilder 0 True" empty_heap] n by blast
  have live: "b_entries ?b = Some ((\<lambda>i. zero_builder_entry)(0 := builder_entry_of a_txt 1 (length hello))) \<and>
      (b_count ?b = 0 \<or>
       b_count ?b = Suc 0 \<and>
       (be_data (((\<lambda>i. zero_builder_entry)(0 := builder_entry_of a_txt 1 (length hello))) 0) = 0 \<or>
        blocks ?h (be_data (((\<lambda>i. zero_builder_entry)(0 := builder_entry_of a_txt 1 (length hello))) 0)) \<noteq>
          None))"
    by (simp add: builder_entry_of_def Let_def)
  have p2: "\<exists>h'. StpBuilderClear (Some ?b) ?h = Returned (Some zero_builder, h')"
    using StpBuilderClear_amended [of ?b ?h] live by blast
  have p3: "b_enable_crc zero_builder = False"
    using StpBuilderClear_amended [of ?b ?h] by blast
  show ?thesis
    using n f p1 p2 p3 by (simp add: one_pending_value)
qed

text \<open>
  C9 as stated fails on a builder created with capacity 0 and CRC generation
  that is finalized before anything is appended: \<open>StpBuilderClear\<close> leaves it
  as it is, and after \<open>StpBuilderFinalize\<close> CRC generation is still enabled.
\<close>

theorem StpBuilderClear_counterexample:
  "StpBuilderClear (Some (StpCreateArchiveBuilder 0 True)) empty_heap =
     Returned (Some (StpCreateArchiveBuilder 0 True), empty_heap) \<and>
   (case StpBuilderFinalize zero_archive (Some (StpCreateArchiveBuilder 0 True)) empty_heap of
      Returned (archive, b', h') \<Rightarrow> map_option b_enable_crc b' = Some True
    | Failed c \<Rightarrow> False
    | Undefined \<Rightarrow> False)"
  by (simp add: builder_defs)


subsection \<open>Finalizing a builder\<close>

text \<open>
  What the two loops of \<open>StpBuilderFinalize\<close> build when every pending buffer
  is live: the data buffer is the concatenation of the pending bytes in
  insertion order, and entry \<open>j\<close> has the sum of the earlier sizes as its offset
  and the size of pending entry \<open>j\<close> as its length.
\<close>

lemma offset_of_Suc: "offset_of arr (Suc j) = offset_of arr j + be_size (arr j)"
  by (simp add: offset_of_def)

lemma offset_of_mono: "i \<le> j \<Longrightarrow> offset_of arr i \<le> offset_of arr j"
  by (induction j) (auto simp: offset_of_Suc le_Suc_eq)

lemma pending_payload_length: "pending_ok h p \<Longrightarrow> length (pending_payload h p) = be_size p"
  by (auto simp: pending_ok_def pending_payload_def split: option.splits)

lemma finalize_loop_spec:
  assumes ok: "\<forall>j<cnt. pending_ok h (arr j)"
  shows "i \<le> cnt \<Longrightarrow> length es = cnt \<Longrightarrow> length buf = offset_of arr cnt \<Longrightarrow>
     finalize_loop arr cnt h i (offset_of arr i) buf es =
     Returned
       (take (offset_of arr i) buf @ concat (map (\<lambda>j. pending_payload h (arr j)) [i..<cnt]),
        take i es @ map (\<lambda>j. entry_of_pending (arr j) (offset_of arr j)) [i..<cnt])"
proof (induction "cnt - i" arbitrary: i buf es)
  case 0
  then have "i = cnt" by simp
  then show ?case using 0 by (simp add: finalize_loop.simps)
next
  case (Suc k)
  then have lt: "i < cnt" by simp
  then have pk: "pending_ok h (arr i)" using ok by simp
  then obtain blk where blk: "blocks h (be_data (arr i)) = Some blk" "be_size (arr i) \<le> length blk"
    by (auto simp: pending_ok_def split: option.splits)
  have pay: "pending_payload h (arr i) = take (be_size (arr i)) blk"
    by (simp add: pending_payload_def blk)
  have len_pay: "length (pending_payload h (arr i)) = be_size (arr i)"
    using pk by (rule pending_payload_length)
  let ?buf = "write_at buf (offset_of arr i) (take (be_size (arr i)) blk)"
  let ?es = "es[i := entry_of_pending (arr i) (offset_of arr i)]"
  have le: "offset_of arr (Suc i) \<le> length buf"
    using offset_of_mono [of "Suc i" cnt arr] lt Suc.prems(3) by simp
  have lbuf: "length ?buf = offset_of arr cnt"
    using le Suc.prems(3) len_pay by (simp add: write_at_def pay offset_of_Suc)
  have tk: "take (offset_of arr (Suc i)) ?buf =
            take (offset_of arr i) buf @ pending_payload h (arr i)"
    using le len_pay by (simp add: write_at_def pay offset_of_Suc)
  have tes: "take (Suc i) ?es = take i es @ [entry_of_pending (arr i) (offset_of arr i)]"
    using lt Suc.prems(2) by (simp add: take_Suc_conv_app_nth)
  have k: "k = cnt - Suc i" using Suc.hyps(2) by simp
  have step: "finalize_loop arr cnt h i (offset_of arr i) buf es =
              finalize_loop arr cnt h (Suc i) (offset_of arr (Suc i)) ?buf ?es"
    using lt blk by (subst finalize_loop.simps) (simp add: offset_of_Suc)
  have "finalize_loop arr cnt h (Suc i) (offset_of arr (Suc i)) ?buf ?es =
        Returned (take (offset_of arr (Suc i)) ?buf @
                    concat (map (\<lambda>j. pending_payload h (arr j)) [Suc i..<cnt]),
                  take (Suc i) ?es @
                    map (\<lambda>j. entry_of_pending (arr j) (offset_of arr j)) [Suc i..<cnt])"
    using Suc.hyps(1) [OF k, of ?es ?buf] lt Suc.prems(2) lbuf by simp
  then show ?case
    using lt by (simp add: step tk tes upt_conv_Cons)
qed

lemma finalize_build_spec:
  assumes "b_entries b = Some arr" and "\<forall>j<b_count b. pending_ok h (arr j)"
  shows "finalize_build fresh b h =
     Returned
       (fresh\<lparr>a_data := concat (map (\<lambda>j. pending_payload h (arr j)) [0..<b_count b]),
              a_entries :=
                map (\<lambda>j. entry_of_pending (arr j) (offset_of arr j)) [0..<b_count b]\<rparr>)"
proof -
  have z: "offset_of arr 0 = 0" by (simp add: offset_of_def)
  have "finalize_loop arr (b_count b) h 0 (offset_of arr 0)
          (replicate (offset_of arr (b_count b)) 0) (replicate (b_count b) zero_entry) =
        Returned
          (take (offset_of arr 0) (replicate (offset_of arr (b_count b)) 0) @
             concat (map (\<lambda>j. pending_payload h (arr j)) [0..<b_count b]),
           take 0 (replicate (b_count b) zero_entry) @
             map (\<lambda>j. entry_of_pending (arr j) (offset_of arr j)) [0..<b_count b])"
    by (rule finalize_loop_spec [OF assms(2)]) simp_all
  then show ?thesis
    using assms(1) by (simp add: finalize_build_def pending_size_def z offset_of_def [symmetric])
qed

text \<open>\<open>StpBuilderFinalize\<close> assigns neither \<open>size\<close> nor \<open>entry_count\<close>.\<close>

lemma finalize_build_fields:
  "finalize_build fresh b h = Returned archive \<Longrightarrow>
   a_size archive = a_size fresh \<and> a_entry_count archive = a_entry_count fresh"
  by (auto simp: finalize_build_def split: outcome.splits option.splits)

lemma StpBuilderFinalize_fields:
  "StpBuilderFinalize fresh (Some b) h = Returned (archive, b', h') \<Longrightarrow>
   a_size archive = a_size fresh \<and> a_entry_count archive = a_entry_count fresh"
  by (auto simp: StpBuilderFinalize_def dest: finalize_build_fields split: outcome.splits)

lemma finalize_loop_not_Failed: "finalize_loop arr cnt h i offset buf es \<noteq> Failed c"
proof (induction arr cnt h i offset buf es rule: finalize_loop.induct)
  case (1 arr cnt h i offset buf es)
  show ?case
    using 1 by (subst finalize_loop.simps) (auto split: option.splits)
qed

lemma finalize_build_not_Failed: "finalize_build fresh b h \<noteq> Failed c"
  using finalize_loop_not_Failed
  by (auto simp: finalize_build_def pending_size_def split: option.splits outcome.splits)

lemma StpBuilderFinalize_twice:
  assumes "b_entries b = Some arr" "2 \<le> b_count b" "be_data (arr 0) \<noteq> 0"
  shows "StpBuilderFinalize fresh (Some b) h = Undefined"
  using finalize_build_not_Failed [of fresh b h] StpBuilderClear_twice [OF assms, of h]
  by (simp add: StpBuilderFinalize_def split: outcome.splits)

lemma builder_inv_create: "builder_inv (StpCreateArchiveBuilder cap crc) empty_heap"
  by (simp add: builder_inv_def StpCreateArchiveBuilder_def empty_heap_def)

lemma then_append_inv:
  assumes "builder_inv b h" "strlen name \<noteq> 0"
  shows "then_append (Returned (b, h)) name bytes = Undefined \<or>
         (\<exists>b' h'. then_append (Returned (b, h)) name bytes = Returned (b', h') \<and>
            builder_inv b' h' \<and> b_count b' = Suc (b_count b) \<and> b_entries b' \<noteq> None)"
  using assms
  by (auto simp: then_append_def StpBuilderAppendBinary_def StpBuilderReserve_def
        builder_store_def builder_entry_of_def heap_malloc_def heap_memcpy_def builder_inv_def
        Let_def split: option.splits)

lemma append_all_Undefined: "append_all Undefined items = Undefined"
  by (induction items) (simp_all add: then_append_def)

lemma append_all_inv:
  "builder_inv b h \<Longrightarrow> \<forall>item \<in> set items. strlen (fst item) \<noteq> 0 \<Longrightarrow>
   append_all (Returned (b, h)) items = Undefined \<or>
   (\<exists>b' h'. append_all (Returned (b, h)) items = Returned (b', h') \<and>
      builder_inv b' h' \<and> b_count b' = b_count b + length items \<and>
      (items \<noteq> [] \<longrightarrow> b_entries b' \<noteq> None))"
proof (induction items arbitrary: b h)
  case Nil
  then show ?case by simp
next
  case (Cons item items)
  from then_append_inv [OF Cons.prems(1), of "fst item" "snd item"] Cons.prems(2)
  consider "then_append (Returned (b, h)) (fst item) (snd item) = Undefined"
    | b1 h1 where "then_append (Returned (b, h)) (fst item) (snd item) = Returned (b1, h1)"
        "builder_inv b1 h1" "b_count b1 = Suc (b_count b)" "b_entries b1 \<noteq> None"
    by auto
  then show ?case
  proof cases
    case 1
    then show ?thesis by (simp add: append_all_Undefined)
  next
    case 2
    from Cons.IH [OF 2(2)] Cons.prems(2)
    consider "append_all (Returned (b1, h1)) items = Undefined"
      | b' h' where "append_all (Returned (b1, h1)) items = Returned (b', h')"
          "builder_inv b' h'" "b_count b' = b_count b1 + length items"
          "items \<noteq> [] \<longrightarrow> b_entries b' \<noteq> None"
      by auto
    then show ?thesis
    proof cases
      case 1
      then show ?thesis using 2(1) by simp
    next
      case inner: 2
      have "b_entries b' \<noteq> None"
      proof (cases items)
        case Nil
        then show ?thesis using inner(1) 2(4) by simp
      next
        case (Cons x xs)
        then show ?thesis using inner(4) by simp
      qed
      then show ?thesis using 2(1) 2(3) inner(1) inner(2) inner(3) by simp
    qed
  qed
qed

text \<open>
  Claim C4, where the code departs from it. Whatever non-empty names and
  whatever bytes are appended to a new builder, once two or more entries are
  pending \<open>StpBuilderFinalize\<close> does not return the archive: clearing the
  builder releases the buffer of the first pending entry a second time.
\<close>

theorem StpBuilderFinalize_two_or_more:
  assumes "\<forall>item \<in> set items. strlen (fst item) \<noteq> 0" and "2 \<le> length items"
  shows "then_finalize fresh
           (append_all (Returned (StpCreateArchiveBuilder capacity generate_crc, empty_heap))
              items) = Undefined"
proof -
  from append_all_inv [OF builder_inv_create assms(1), of capacity generate_crc]
  consider
    "append_all (Returned (StpCreateArchiveBuilder capacity generate_crc, empty_heap)) items =
     Undefined"
    | b' h' where
      "append_all (Returned (StpCreateArchiveBuilder capacity generate_crc, empty_heap)) items =
       Returned (b', h')"
      "builder_inv b' h'"
      "b_count b' = b_count (StpCreateArchiveBuilder capacity generate_crc) + length items"
      "items \<noteq> [] \<longrightarrow> b_entries b' \<noteq> None"
    by blast
  then show ?thesis
  proof cases
    case 1
    then show ?thesis by (simp add: then_finalize_def)
  next
    case 2
    have c2: "2 \<le> b_count b'" using 2(3) assms(2) by simp
    from 2(4) assms(2) obtain arr where a: "b_entries b' = Some arr" by auto
    have "be_data (arr 0) \<noteq> 0" using 2(2) a c2 by (simp add: builder_inv_def)
    from StpBuilderFinalize_twice [OF a c2 this]
    show ?thesis by (simp add: 2(1) then_finalize_def)
  qed
qed

text \<open>
  The statement on the two appends \<^verbatim>\<open>a.txt\<close> with \<^verbatim>\<open>hello\<close> and \<^verbatim>\<open>b.bin\<close> with the
  bytes 0, 1, 2.
\<close>

theorem StpBuilderFinalize_two_or_more_witness:
  "strlen a_txt \<noteq> 0 \<and> strlen b_bin \<noteq> 0 \<and>
   2 \<le> length [(a_txt, hello), (b_bin, [0, 1, 2 :: byte])] \<and>
   then_finalize zero_archive
     (then_append
        (then_append (Returned (StpCreateArchiveBuilder 0 False, empty_heap)) a_txt hello)
        b_bin [0, 1, 2]) = Undefined"
  using StpBuilderFinalize_two_or_more
          [of "[(a_txt, hello), (b_bin, [0, 1, 2])]" zero_archive 0 False]
  by (simp add: strlen_def cstr_def a_txt_def b_bin_def)

text \<open>
  With one pending entry \<open>StpBuilderFinalize\<close> returns: the archive holds the
  bytes of \<^verbatim>\<open>hello\<close> under \<^verbatim>\<open>a.txt\<close> at offset 0, and the builder is zeroed.
\<close>

lemma finalize_one_pending:
  "(case one_pending of
      Returned (b, h) \<Rightarrow>
        (case StpBuilderFinalize fresh (Some b) h of
           Returned (archive, b', h') \<Rightarrow>
             a_data archive = hello \<and>
             map e_origin (a_entries archive) = [0] \<and>
             map e_size (a_entries archive) = [5] \<and>
             map (\<lambda>e. cstr (e_entry_name e)) (a_entries archive) = [a_txt] \<and>
             b' = Some zero_builder
         | Failed c \<Rightarrow> False
         | Undefined \<Rightarrow> False)
    | Failed c \<Rightarrow> False
    | Undefined \<Rightarrow> False)"
  by (simp add: one_pending_def builder_defs)

subsection \<open>Looking entries up\<close>

text \<open>
  Claim C6, where the code departs from it. \<open>StpBuilderFinalize\<close> never
  assigns \<open>entry_count\<close>, which the lookups take as the length of the table.
  When the fresh struct holds zero there, the archive finalized from the one
  append of \<^verbatim>\<open>hello\<close> under \<^verbatim>\<open>a.txt\<close> holds that entry and those bytes, and yet
  \<open>StpArchiveOpenEntry\<close> fails with \<open>STP_ERROR_ENTRY_NOT_FOUND\<close> for \<^verbatim>\<open>a.txt\<close>
  and \<open>StpArchiveHasEntry\<close> returns \<open>false\<close>.
\<close>

theorem open_after_finalize_not_found:
  "(case then_finalize zero_archive
           (then_append (Returned (StpCreateArchiveBuilder 0 False, empty_heap)) a_txt hello) of
      Returned (archive, b, h) \<Rightarrow>
        map (\<lambda>e. cstr (e_entry_name e)) (a_entries archive) = [a_txt] \<and>
        map (entry_payload archive) (a_entries archive) = [hello] \<and>
        a_entry_count archive = 0 \<and>
        StpArchiveOpenEntry (Some archive) (Some a_txt) = Failed STP_ERROR_ENTRY_NOT_FOUND \<and>
        StpArchiveHasEntry (Some archive) (Some a_txt) = Returned False
    | Failed c \<Rightarrow> False
    | Undefined \<Rightarrow> False)"
  by (simp add: builder_defs zero_archive_def entry_payload_def StpArchiveOpenEntry_def
        StpArchiveHasEntry_def open_loop.simps has_loop.simps)

subsection \<open>Reading an entry\<close>

text \<open>The name field of an entry that \<open>StpBuilderFinalize\<close> fills holds 256 bytes.\<close>

lemma entry_of_pending_name_length:
  "unat (be_name_len p) \<le> length (be_name p) \<Longrightarrow>
   length (e_entry_name (entry_of_pending p offset)) = 256"
proof -
  assume a: "unat (be_name_len p) \<le> length (be_name p)"
  have "unat (be_name_len p) < 2 ^ LENGTH(8)"
    by (rule unsigned_less)
  then have "unat (be_name_len p) \<le> 256" by simp
  then show ?thesis using a by (simp add: entry_of_pending_def)
qed

text \<open>
  What the call copies, where it returns: the first bytes of the name field.
  Past the 256 bytes of the field the read leaves the array.
\<close>

lemma StpReadEntry_copies_name_field:
  "0 < c \<Longrightarrow> min (e_size e) c \<le> 256 \<Longrightarrow> min (e_size e) c \<le> length buf \<Longrightarrow>
   StpReadEntry (Some e) (Some buf) c =
     Returned (min (e_size e) c, take (min (e_size e) c) (e_entry_name e))"
  by (auto simp: StpReadEntry_def Let_def min_def)

lemma StpReadEntry_past_name_field:
  "0 < c \<Longrightarrow> 256 < min (e_size e) c \<Longrightarrow> StpReadEntry (Some e) (Some buf) c = Undefined"
  by (auto simp: StpReadEntry_def Let_def min_def)




subsection \<open>The stored header\<close>

lemma un_le32_le32: "un_le32 (le32 w) = w"
proof (rule bit_word_eqI)
  fix n :: nat
  assume n: "n < LENGTH(32)"
  consider "n < 8" | "8 \<le> n" "n < 16" | "16 \<le> n" "n < 24" | "24 \<le> n"
    by linarith
  then show "bit (un_le32 (le32 w)) n = bit w n"
  proof cases
    case 1
    then show ?thesis
      using n by (auto simp: un_le32_def le32_def Let_def bit_simps)
  next
    case 2
    then show ?thesis
      using n by (auto simp: un_le32_def le32_def Let_def bit_simps)
  next
    case 3
    then show ?thesis
      using n by (auto simp: un_le32_def le32_def Let_def bit_simps)
  next
    case 4
    then show ?thesis
      using n by (auto simp: un_le32_def le32_def Let_def bit_simps)
  qed
qed

lemma un_le32_small: "un_le32 [5, 0, 0, 0] = 5" "un_le32 [42, 0, 0, 0] = 42"
  by (simp_all add: un_le32_def)

lemma data_origin_loop_eq:
  "i \<le> a_entry_count a \<Longrightarrow> a_entry_count a \<le> length (a_entries a) \<Longrightarrow>
   data_origin_loop a i d =
   Returned (d + of_nat (sum_list (map (\<lambda>e. 1 + strlen (e_entry_name e) + 8)
                                   (drop i (take (a_entry_count a) (a_entries a))))))"
proof (induction "a_entry_count a - i" arbitrary: i d)
  case 0
  then have "i = a_entry_count a" by simp
  then show ?case by (simp add: data_origin_loop.simps)
next
  case (Suc k)
  then have lt: "i < a_entry_count a" and ll: "i < length (a_entries a)" by simp_all
  have k: "k = a_entry_count a - Suc i" using Suc.hyps(2) by simp
  have dr: "drop i (take (a_entry_count a) (a_entries a)) =
            a_entries a ! i # drop (Suc i) (take (a_entry_count a) (a_entries a))"
    using lt ll by (simp add: Cons_nth_drop_Suc [symmetric])
  have "data_origin_loop a i d =
        data_origin_loop a (Suc i) (d + of_nat (strlen (e_entry_name (a_entries a ! i)) + 1) + 8)"
    using lt ll by (subst data_origin_loop.simps) simp
  also have "\<dots> = Returned (d + of_nat (strlen (e_entry_name (a_entries a ! i)) + 1) + 8 +
      of_nat (sum_list (map (\<lambda>e. 1 + strlen (e_entry_name e) + 8)
                          (drop (Suc i) (take (a_entry_count a) (a_entries a))))))"
    using Suc.hyps(1) [OF k] lt Suc.prems(2) by simp
  finally show ?case by (simp add: dr)
qed

lemma fwrite_at_end:
  "f_pos f = length (f_bytes f) \<Longrightarrow>
   f_bytes (fwrite bs f) = f_bytes f @ bs \<and> f_pos (fwrite bs f) = length (f_bytes f @ bs)"
  by (simp add: fwrite_def)

lemma write_entries_loop_eq:
  "f_pos f = length (f_bytes f) \<Longrightarrow> i \<le> a_entry_count a \<Longrightarrow>
   a_entry_count a \<le> length (a_entries a) \<Longrightarrow>
   \<exists>f'. write_entries_loop a i f = Returned f' \<and>
     f_bytes f' = f_bytes f @
       concat (map entry_record (drop i (take (a_entry_count a) (a_entries a)))) \<and>
     f_pos f' = length (f_bytes f')"
proof (induction "a_entry_count a - i" arbitrary: i f)
  case 0
  then have "i = a_entry_count a" by simp
  then show ?case using 0 by (simp add: write_entries_loop.simps)
next
  case (Suc k)
  then have lt: "i < a_entry_count a" and ll: "i < length (a_entries a)" by simp_all
  have k: "k = a_entry_count a - Suc i" using Suc.hyps(2) by simp
  have dr: "drop i (take (a_entry_count a) (a_entries a)) =
            a_entries a ! i # drop (Suc i) (take (a_entry_count a) (a_entries a))"
    using lt ll by (simp add: Cons_nth_drop_Suc [symmetric])
  let ?f = "fwrite (entry_record (a_entries a ! i)) f"
  have w: "f_bytes ?f = f_bytes f @ entry_record (a_entries a ! i)" "f_pos ?f = length (f_bytes ?f)"
    using fwrite_at_end [OF Suc.prems(1), of "entry_record (a_entries a ! i)"] by simp_all
  have st: "write_entries_loop a i f = write_entries_loop a (Suc i) ?f"
    using lt ll by (subst write_entries_loop.simps) simp
  from Suc.hyps(1) [OF k w(2)] lt Suc.prems(3)
  obtain f' where "write_entries_loop a (Suc i) ?f = Returned f'"
    "f_bytes f' = f_bytes ?f @
       concat (map entry_record (drop (Suc i) (take (a_entry_count a) (a_entries a))))"
    "f_pos f' = length (f_bytes f')"
    by auto
  then show ?case by (simp add: st w dr)
qed

text \<open>
  Without compression and without checksums the stream is the header, one
  record per entry and the data bytes, with \<open>data_origin\<close> the header size
  plus the sum of \<open>1 + name_len + 8\<close> over the entries, \<open>raw_size\<close> the length
  of the data section and \<open>crc_origin = data_origin + raw_size\<close>.
\<close>

lemma write_plain_layout:
  assumes "a_entry_count a \<le> length (a_entries a)" and "a_size a \<le> length (a_data a)"
  shows "\<exists>f. StpArchiveWriteToFileF_CRC compress (Some a) (Some empty_file) False None =
               Returned f \<and>
    f_bytes f =
      header_bytes
        \<lparr>h_magic = STPA, h_version_major = 1, h_version_minor = 0, h_reserved_0 = 0,
         h_compressed = False, h_crc_enabled = False, h_reserved_1 = 0,
         h_raw_size = of_nat (a_size a),
         h_uncompressed_size = 0,
         h_data_origin =
           of_nat sizeof_header +
           of_nat (sum_list (map (\<lambda>e. 1 + strlen (e_entry_name e) + 8)
                               (take (a_entry_count a) (a_entries a)))),
         h_crc_origin =
           of_nat sizeof_header +
           of_nat (sum_list (map (\<lambda>e. 1 + strlen (e_entry_name e) + 8)
                               (take (a_entry_count a) (a_entries a)))) +
           of_nat (a_size a),
         h_entry_count = of_nat (a_entry_count a)\<rparr> @
      concat (map entry_record (take (a_entry_count a) (a_entries a))) @
      take (a_size a) (a_data a)"
proof -
  let ?o = "of_nat sizeof_header +
           of_nat (sum_list (map (\<lambda>e. 1 + strlen (e_entry_name e) + 8)
                               (take (a_entry_count a) (a_entries a)))) :: u32"
  let ?h = "\<lparr>h_magic = STPA, h_version_major = 1, h_version_minor = 0, h_reserved_0 = 0,
         h_compressed = False, h_crc_enabled = False, h_reserved_1 = 0,
         h_raw_size = of_nat (a_size a),
         h_uncompressed_size = 0,
         h_data_origin = ?o,
         h_crc_origin = ?o + of_nat (a_size a),
         h_entry_count = of_nat (a_entry_count a)\<rparr>"
  have o: "data_origin_loop a 0 (of_nat sizeof_header) = Returned ?o"
    using data_origin_loop_eq [of 0 a "of_nat sizeof_header"] assms(1) by simp
  let ?f0 = "fwrite (header_bytes ?h) empty_file"
  have f0: "f_bytes ?f0 = header_bytes ?h" "f_pos ?f0 = length (f_bytes ?f0)"
    by (simp_all add: fwrite_def empty_file_def)
  from write_entries_loop_eq [OF f0(2), of 0 a] assms(1)
  obtain f1 where f1: "write_entries_loop a 0 ?f0 = Returned f1"
    "f_bytes f1 = header_bytes ?h @ concat (map entry_record (take (a_entry_count a) (a_entries a)))"
    "f_pos f1 = length (f_bytes f1)"
    using f0(1) by auto
  have len: "length (take (a_size a) (a_data a)) = a_size a"
    using assms(2) by simp
  have nl: "(length (a_data a) < a_size a) = False"
    using assms(2) by simp
  have nn: "((None :: u32 list option) \<noteq> None) = False"
    by simp
  have res: "StpArchiveWriteToFileF_CRC compress (Some a) (Some empty_file) False None =
             Returned (fwrite (take (a_size a) (a_data a)) f1)"
    by (simp only: StpArchiveWriteToFileF_CRC_def option.case outcome.case o nl nn if_False
          Let_def len f1(1))
  show ?thesis
    using fwrite_at_end [OF f1(3), of "take (a_size a) (a_data a)"]
    by (simp only: res f1(2) append_assoc) blast
qed

text \<open>
  The stream written for \<open>hello_archive\<close> without compression and without
  checksums: the header with \<open>data_origin = 28 + (1 + 5 + 8)\<close>, the entry
  record, the five data bytes.
\<close>

lemma write_hello_plain:
  "StpArchiveWriteToFileF compress (Some hello_archive) (Some empty_file) False False =
   Returned
     \<lparr>f_bytes =
        STPA @ [1, 0, 0, 0] @ le32 5 @ le32 0 @ le32 42 @ le32 47 @ le32 1 @
        [5] @ a_txt @ le32 0 @ le32 5 @ hello,
      f_pos = 47\<rparr>"
  by (simp add: writer_defs)

text \<open>
  Claim C5, where the code departs from it. For \<open>hello_archive\<close> written with
  compression and checksums, whatever the compressor: \<open>data_origin\<close> is
  \<open>28 + (1 + 5 + 8)\<close>, the data section stored at \<open>data_origin\<close> is the
  output of the compressor (followed by the checksum table), \<open>crc_origin\<close> is
  \<open>data_origin\<close> plus the length of that output, and the header field
  \<open>raw_size\<close> is 5, the length of the data before compression. With a
  compressor that keeps within the capacity 0 that the code passes, nothing
  is stored and \<open>raw_size\<close> is still 5.
\<close>

theorem compressed_raw_size_is_unc_size:
  "(case StpArchiveWriteToFileF compress (Some hello_archive) (Some empty_file) True True of
      Returned f \<Rightarrow>
        h_raw_size (header_of_bytes (f_bytes f)) = 5 \<and>
        h_data_origin (header_of_bytes (f_bytes f)) = 42 \<and>
        h_crc_origin (header_of_bytes (f_bytes f)) = 42 + of_nat (length (compress 0 hello)) \<and>
        drop 42 (f_bytes f) = compress 0 hello @ le32 0x3610A686
    | Failed c \<Rightarrow> False
    | Undefined \<Rightarrow> False) \<and>
   (case StpArchiveWriteToFileF store_within (Some hello_archive) (Some empty_file) True True of
      Returned f \<Rightarrow>
        h_raw_size (header_of_bytes (f_bytes f)) = 5 \<and>
        h_crc_origin (header_of_bytes (f_bytes f)) = 42 \<and>
        drop 42 (f_bytes f) = le32 0x3610A686
    | Failed c \<Rightarrow> False
    | Undefined \<Rightarrow> False)"
proof -
  have crc: "StpCrc32 [0x68, 0x65, 0x6C, 0x6C, 0x6F] 5 = Returned 0x3610A686"
    using StpCrc32_hello by (simp add: hello_def)
  have s: "store_within 0 [0x68, 0x65, 0x6C, 0x6C, 0x6F] = []"
    by (simp add: store_within_def)
  show ?thesis
    by (simp add: writer_defs header_of_bytes_def crc s un_le32_le32 [unfolded le32_def]
          un_le32_small)
qed

subsection \<open>Opening a stream\<close>

lemma fread_one_item: "fst (fread sz 1 f) \<le> 1"
proof (cases "sz = 0")
  case True
  then show ?thesis by (simp add: fread_def Let_def)
next
  case False
  have "length (take (sz * 1) (drop (f_pos f) (f_bytes f))) \<le> sz" by simp
  then have "length (take (sz * 1) (drop (f_pos f) (f_bytes f))) div sz \<le> sz div sz"
    by (rule div_le_mono)
  then show ?thesis using False by (simp add: fread_def Let_def)
qed

text \<open>
  \<open>fread\<close> returns at most the one item asked for, and the code compares
  that count with the 28 bytes of the header: every stream is refused.
\<close>

lemma StpOpenArchiveFromFile_fails:
  "StpOpenArchiveFromFile fresh uncompress (Some f) = Failed STP_ERROR_FILE_READ"
proof -
  obtain n bs f1 where r: "fread sizeof_header 1 f = (n, bs, f1)"
    by (cases "fread sizeof_header 1 f")
  have "n \<le> 1" using fread_one_item [of sizeof_header f] r by simp
  then have "n < sizeof_header" by (simp add: sizeof_header_def)
  then show ?thesis using r by (simp add: StpOpenArchiveFromFile_def del: One_nat_def)
qed

text \<open>The two literals differ, so one of the two comparisons always reports a difference.\<close>

lemma magic_mismatch_always: "magic_mismatch magic"
  by (auto simp: magic_mismatch_def STPA_def APTS_def)

lemma open_after_header_fails:
  "open_after_header fresh uncompress header f = Failed STP_ERROR_IDENTIFIER_MISMATCH"
  by (simp add: open_after_header_def magic_mismatch_always)

text \<open>
  Claim C2, where the code departs from it. The test that
  \<open>StpOpenArchiveFromFile\<close> applies to the magic is the disjunction of two
  mismatch tests and holds for the magic \<^verbatim>\<open>STPA\<close> itself, so the code after the
  header read would report an identifier mismatch for a header that starts
  with \<^verbatim>\<open>STPA\<close>. A stream of 28 bytes whose magic is \<^verbatim>\<open>APTS\<close> is refused with
  \<open>STP_ERROR_FILE_READ\<close>, not with \<open>STP_ERROR_IDENTIFIER_MISMATCH\<close>.
\<close>

theorem magic_test_rejects_STPA:
  "magic_mismatch STPA \<and>
   open_after_header fresh uncompress (header_of_bytes (STPA @ rest)) f =
     Failed STP_ERROR_IDENTIFIER_MISMATCH \<and>
   StpOpenArchiveFromFile fresh uncompress
     (Some \<lparr>f_bytes = APTS @ replicate 24 0, f_pos = 0\<rparr>) = Failed STP_ERROR_FILE_READ"
  by (simp add: magic_mismatch_always open_after_header_fails StpOpenArchiveFromFile_fails)

text \<open>The statement on the header that the writer produces for \<open>hello_archive\<close>.\<close>

theorem magic_test_rejects_STPA_witness:
  "magic_mismatch STPA \<and>
   open_after_header zero_archive store_within
     (header_of_bytes
        (STPA @ [1, 0, 0, 0] @ le32 5 @ le32 0 @ le32 42 @ le32 47 @ le32 1 @
         [5] @ a_txt @ le32 0 @ le32 5 @ hello))
     \<lparr>f_bytes =
        STPA @ [1, 0, 0, 0] @ le32 5 @ le32 0 @ le32 42 @ le32 47 @ le32 1 @
        [5] @ a_txt @ le32 0 @ le32 5 @ hello, f_pos = 28\<rparr> =
     Failed STP_ERROR_IDENTIFIER_MISMATCH \<and>
   StpOpenArchiveFromFile zero_archive store_within
     (Some \<lparr>f_bytes = APTS @ replicate 24 0, f_pos = 0\<rparr>) = Failed STP_ERROR_FILE_READ"
  using magic_test_rejects_STPA
          [of zero_archive store_within
              "[1, 0, 0, 0] @ le32 5 @ le32 0 @ le32 42 @ le32 47 @ le32 1 @
               [5] @ a_txt @ le32 0 @ le32 5 @ hello"
              "\<lparr>f_bytes =
                 STPA @ [1, 0, 0, 0] @ le32 5 @ le32 0 @ le32 42 @ le32 47 @ le32 1 @
                 [5] @ a_txt @ le32 0 @ le32 5 @ hello, f_pos = 28\<rparr>"]
  by simp

subsection \<open>Writing and reading back\<close>

text \<open>
  Claim C1, where the code departs from it. The archive finalized from the
  one append of \<^verbatim>\<open>hello\<close> under \<^verbatim>\<open>a.txt\<close>, in a struct whose \<open>size\<close> and
  \<open>entry_count\<close> happen to hold 5 and 1, is \<open>hello_archive\<close>. Written to a
  file with any of the four combinations of \<open>compressed\<close> and \<open>enable_crc\<close>
  and with any compressor, the file exists, and opening its stream fails with
  \<open>STP_ERROR_FILE_READ\<close>: no archive is read back.
\<close>

theorem write_then_open_fails:
  "(case then_finalize (zero_archive\<lparr>a_size := 5, a_entry_count := 1\<rparr>)
           (then_append (Returned (StpCreateArchiveBuilder 0 False, empty_heap)) a_txt hello) of
      Returned (archive, b, h) \<Rightarrow>
        archive = hello_archive \<and>
        (case StpArchiveWriteToFile compress no_files (Some archive) a_stp compressed
                enable_crc of
           Returned fs \<Rightarrow>
             fopen_rb fs a_stp \<noteq> None \<and>
             StpOpenArchiveFromFile fresh uncompress (fopen_rb fs a_stp) =
               Failed STP_ERROR_FILE_READ
         | Failed c \<Rightarrow> False
         | Undefined \<Rightarrow> False)
    | Failed c \<Rightarrow> False
    | Undefined \<Rightarrow> False)"
proof -
  have built:
    "then_finalize (zero_archive\<lparr>a_size := 5, a_entry_count := 1\<rparr>)
       (then_append (Returned (StpCreateArchiveBuilder 0 False, empty_heap)) a_txt hello) =
     Returned (hello_archive, Some zero_builder, \<lparr>blocks = (\<lambda>a. None), next_block = 2\<rparr>)"
    by (simp add: builder_defs zero_archive_def hello_archive_def)
  have crc: "StpCrc32 [0x68, 0x65, 0x6C, 0x6C, 0x6F] 5 = Returned 0x3610A686"
    using StpCrc32_hello by (simp add: hello_def)
  have written:
    "(case StpArchiveWriteToFile compress no_files (Some hello_archive) a_stp compressed
             enable_crc of
        Returned fs \<Rightarrow>
          fopen_rb fs a_stp \<noteq> None \<and>
          StpOpenArchiveFromFile fresh uncompress (fopen_rb fs a_stp) =
            Failed STP_ERROR_FILE_READ
      | Failed c \<Rightarrow> False
      | Undefined \<Rightarrow> False)"
    by (cases compressed; cases enable_crc)
       (simp_all add: writer_defs crc StpOpenArchiveFromFile_fails)
  show ?thesis
    unfolding built using written by simp
qed

subsection \<open>The path forms\<close>

text \<open>
  \<open>StpOpenArchive\<close> never reaches the stream form: a path that names a file
  is refused because \<open>stat\<close> succeeds, any other path because \<open>fopen\<close> fails.
\<close>

lemma StpOpenArchive_existing:
  "fs (cstr filename) = Some (File bytes) \<Longrightarrow>
   StpOpenArchive fresh uncompress fs filename = Failed STP_ERROR_FILE_NOT_FOUND"
  by (simp add: StpOpenArchive_def stat_ok_def)

lemma StpOpenArchive_missing:
  "fs (cstr filename) = None \<or> fs (cstr filename) = Some Uncreatable \<Longrightarrow>
   StpOpenArchive fresh uncompress fs filename = Failed STP_ERROR_FILE_OPEN"
  by (auto simp: StpOpenArchive_def stat_ok_def fopen_rb_def)

text \<open>
  \<open>StpArchiveWriteToFile\<close> creates the file, where the path admits one, and
  hands it to the stream form.
\<close>

lemma StpArchiveWriteToFile_delegates:
  "strlen filename \<noteq> 0 \<Longrightarrow> fs (cstr filename) \<noteq> Some Uncreatable \<Longrightarrow>
   StpArchiveWriteToFile compress fs (Some archive) filename compressed enable_crc =
     (case StpArchiveWriteToFileF compress (Some archive) (Some empty_file) compressed
             enable_crc of
        Returned f' \<Rightarrow> Returned (fs(cstr filename := Some (File (f_bytes f'))))
      | Failed c \<Rightarrow> Failed c
      | Undefined \<Rightarrow> Undefined)"
  by (auto simp: StpArchiveWriteToFile_def fopen_wb_def empty_file_def
        split: option.splits node.splits)

lemma StpArchiveWriteToFile_uncreatable:
  "fs (cstr filename) = Some Uncreatable \<Longrightarrow>
   StpArchiveWriteToFile compress fs (Some archive) filename compressed enable_crc =
     Failed STP_ERROR_FILE_OPEN"
  by (simp add: StpArchiveWriteToFile_def fopen_wb_def)

text \<open>
  Claim C8, where the code departs from it. For the file \<^verbatim>\<open>a.stp\<close> written from
  \<open>hello_archive\<close>, a path that names an existing readable archive file,
  \<open>StpOpenArchive\<close> fails with \<open>STP_ERROR_FILE_NOT_FOUND\<close>, while opening the
  file and applying \<open>StpOpenArchiveFromFile\<close> fails with
  \<open>STP_ERROR_FILE_READ\<close>: the path form does not delegate.
\<close>

theorem StpOpenArchive_existing_file:
  "(case StpArchiveWriteToFile compress no_files (Some hello_archive) a_stp False False of
      Returned fs \<Rightarrow>
        fs a_stp \<noteq> None \<and>
        StpOpenArchive fresh uncompress fs a_stp = Failed STP_ERROR_FILE_NOT_FOUND \<and>
        StpOpenArchiveFromFile fresh uncompress (fopen_rb fs a_stp) =
          Failed STP_ERROR_FILE_READ
    | Failed c \<Rightarrow> False
    | Undefined \<Rightarrow> False)"
  by (simp add: writer_defs StpOpenArchive_def stat_ok_def StpOpenArchiveFromFile_fails)


end
